theory Spec2Isabelle
  imports Main "HOL-Library.Sublist" "HOL-Library.Log_Nat"
begin

section \<open>State model (Effect.ts)\<close>

text \<open>
  The interfaces of \<^verbatim>\<open>Effect.ts\<close> become records. Numbers are integers: health, amounts,
  counts and resources are whole numbers in every use the repository makes of them, and
  on whole numbers up to \<open>2\<^sup>5\<^sup>3\<close> the arithmetic of doubles is exact. What the arithmetic
  of a heal does to fractions is modelled on doubles, apart.
  A \<^verbatim>\<open>Record<string, PlayerState>\<close> is an association list in the enumeration order
  of \<^verbatim>\<open>Object.keys\<close>, because the opponent is the first key that differs from the acting
  player; a \<^verbatim>\<open>Record<string, number>\<close> of resources is a map, since no code enumerates
  it. The field \<^verbatim>\<open>effects\<close> of a card is left out: no effect reads it, and it would make
  the state type depend on the effect type. The fields \<^verbatim>\<open>random\<close> and \<^verbatim>\<open>log\<close> of the
  context are left out as well: no effect of the repository calls them.
\<close>

record card =
  id_card :: string
  name_card :: string
  cost :: int
  tags :: "string list"

text \<open>
  What a resource can hold at run time: a whole number, \<^verbatim>\<open>NaN\<close> (stored by \<^verbatim>\<open>spend\<close> when
  the current amount is not a number), or a text (stored by \<^verbatim>\<open>gain\<close> in that case).
\<close>

datatype resource_value = Num int | NaN | Text string

record player_state =
  id_player :: string
  health :: int
  maxHealth :: int
  hand :: "card list"
  deck :: "card list"
  discardPile :: "card list"
  resources :: "string \<rightharpoonup> resource_value"

datatype game_phase = Draw | Main | Discard | End

record game_state =
  players :: "(string \<times> player_state) list"
  currentPlayer :: string
  turn :: int
  phase :: game_phase

record game_context =
  playerId :: string
  gameState :: game_state

text \<open>Values of type \<^verbatim>\<open>unknown\<close> that survive \<^verbatim>\<open>JSON.stringify\<close>.\<close>

datatype js_value =
  JNull
  | JBool bool
  | JNum int
  | JStr string
  | JArr "js_value list"
  | JObj "(string \<times> js_value) list"

record effect_result =
  success :: bool
  newState :: game_state
  messages :: "string list"
  metadata :: "(string \<times> js_value) list option"

text \<open>
  The abstract class \<^verbatim>\<open>Effect\<close>: an object with its two read-only fields and its
  \<^verbatim>\<open>execute\<close> method. Any subclass is a value of this record.
\<close>

record effect =
  type :: string
  description :: string
  execute :: "game_context \<Rightarrow> effect_result"

subsection \<open>Template literals\<close>

definition digit :: "nat \<Rightarrow> char" where
  "digit n = ''0123456789'' ! n"

fun show_nat :: "nat \<Rightarrow> string" where
  "show_nat n = (if n < 10 then [digit n] else show_nat (n div 10) @ [digit (n mod 10)])"

text \<open>How a template literal prints a whole number.\<close>

definition show_number :: "int \<Rightarrow> string" where
  "show_number i = (if i < 0 then CHR ''-'' # show_nat (nat (- i)) else show_nat (nat i))"

subsection \<open>Reading and writing the player mapping\<close>

text \<open>
  \<^verbatim>\<open>players[id]\<close> is \<^term>\<open>map_of\<close>. An assignment through the immer draft to the record
  stored under a key rewrites that entry and keeps the enumeration order.
\<close>

definition update_player ::
  "string \<Rightarrow> (player_state \<Rightarrow> player_state) \<Rightarrow> (string \<times> player_state) list
    \<Rightarrow> (string \<times> player_state) list" where
  "update_player k f ps = map (\<lambda>(k', p). if k' = k then (k', f p) else (k', p)) ps"

text \<open>
  \<^verbatim>\<open>Object.keys(players).find(id => id !== playerId)\<close> together with the record stored
  under the key found: the first entry whose key differs from the acting player.
  \<^verbatim>\<open>None\<close> is \<^verbatim>\<open>undefined\<close>.
\<close>

definition find_other ::
  "string \<Rightarrow> (string \<times> player_state) list \<Rightarrow> (string \<times> player_state) option" where
  "find_other pid ps = find (\<lambda>e. fst e \<noteq> pid) ps"

subsection \<open>Inherited members\<close>

text \<open>
  The records of the state are plain objects, so \<^verbatim>\<open>obj[name]\<close> also finds the members that
  every object inherits from \<^verbatim>\<open>Object.prototype\<close>: eleven functions and, under \<^verbatim>\<open>__proto__\<close>,
  the prototype object itself. All of them are truthy. In arithmetic and in comparisons
  such a member counts as the text it converts to, which is listed with its name (a
  native function as V8 prints it).
\<close>

definition object_prototype_members :: "(string \<times> string) list" where
  "object_prototype_members =
     [(''constructor'', ''function Object() { [native code] }''),
      (''hasOwnProperty'', ''function hasOwnProperty() { [native code] }''),
      (''isPrototypeOf'', ''function isPrototypeOf() { [native code] }''),
      (''propertyIsEnumerable'', ''function propertyIsEnumerable() { [native code] }''),
      (''toLocaleString'', ''function toLocaleString() { [native code] }''),
      (''toString'', ''function toString() { [native code] }''),
      (''valueOf'', ''function valueOf() { [native code] }''),
      (''__defineGetter__'', ''function __defineGetter__() { [native code] }''),
      (''__defineSetter__'', ''function __defineSetter__() { [native code] }''),
      (''__lookupGetter__'', ''function __lookupGetter__() { [native code] }''),
      (''__lookupSetter__'', ''function __lookupSetter__() { [native code] }''),
      (''__proto__'', ''[object Object]'')]"

definition inherited :: "string \<Rightarrow> bool" where
  "inherited name = (map_of object_prototype_members name \<noteq> None)"

section \<open>Primitive effects\<close>

subsection \<open>DamageEffect.ts\<close>

datatype damage_target = DSelf | DOpponent | DAll

definition damage_target_name :: "damage_target \<Rightarrow> string" where
  "damage_target_name t = (case t of DSelf \<Rightarrow> ''self'' | DOpponent \<Rightarrow> ''opponent'' | DAll \<Rightarrow> ''all'')"

text \<open>The three statements applied to a targeted player: clamp, subtract, report.\<close>

definition take_damage :: "int \<Rightarrow> player_state \<Rightarrow> player_state" where
  "take_damage amount p =
     (let actualDamage = min amount (health p) in p\<lparr>health := health p - actualDamage\<rparr>)"

definition damage_message :: "int \<Rightarrow> string \<times> player_state \<Rightarrow> string" where
  "damage_message amount e =
     (let actualDamage = min amount (health (snd e))
      in fst e @ '' takes '' @ show_number actualDamage @ '' damage'')"

text \<open>
  An empty string is falsy, so \<^verbatim>\<open>if (opponentId)\<close> also rejects the key \<^verbatim>\<open>""\<close>.

  When the acting id is no key of \<^verbatim>\<open>players\<close> but names an inherited member,
  \<^verbatim>\<open>draft.players[playerId]\<close> is that member and \<^verbatim>\<open>if (selfPlayer)\<close> holds: its \<^verbatim>\<open>health\<close> is
  \<^verbatim>\<open>undefined\<close>, so the damage is \<^verbatim>\<open>NaN\<close>, and the assignment to \<^verbatim>\<open>selfPlayer.health\<close> writes to
  the member and not to the draft, so \<^verbatim>\<open>produce\<close> returns the state it received.
\<close>

definition DamageEffect_execute :: "int \<Rightarrow> damage_target \<Rightarrow> game_context \<Rightarrow> effect_result" where
  "DamageEffect_execute amount target context =
     (let gs = gameState context; pid = playerId context in
      case target of
        DSelf \<Rightarrow>
          (case map_of (players gs) pid of
             Some selfPlayer \<Rightarrow>
               \<lparr>success = True,
                newState = gs\<lparr>players := update_player pid (take_damage amount) (players gs)\<rparr>,
                messages = [damage_message amount (pid, selfPlayer)],
                metadata = None\<rparr>
           | None \<Rightarrow>
               if inherited pid then
                 \<lparr>success = True, newState = gs,
                  messages = [pid @ '' takes NaN damage''], metadata = None\<rparr>
               else
                 \<lparr>success = False, newState = gs,
                  messages = [''Player '' @ pid @ '' not found''], metadata = None\<rparr>)
      | DOpponent \<Rightarrow>
          (case find_other pid (players gs) of
             Some (opponentId, opponent) \<Rightarrow>
               if opponentId \<noteq> [] then
                 \<lparr>success = True,
                  newState = gs\<lparr>players :=
                    update_player opponentId (take_damage amount) (players gs)\<rparr>,
                  messages = [damage_message amount (opponentId, opponent)],
                  metadata = None\<rparr>
               else
                 \<lparr>success = False, newState = gs,
                  messages = [''No opponent found''], metadata = None\<rparr>
           | None \<Rightarrow>
               \<lparr>success = False, newState = gs,
                messages = [''No opponent found''], metadata = None\<rparr>)
      | DAll \<Rightarrow>
          \<lparr>success = True,
           newState = gs\<lparr>players := map (\<lambda>(k, p). (k, take_damage amount p)) (players gs)\<rparr>,
           messages = map (damage_message amount) (players gs),
           metadata = None\<rparr>)"

definition DamageEffect :: "int \<Rightarrow> damage_target \<Rightarrow> effect" where
  "DamageEffect amount target =
     \<lparr>type = ''damage'',
      description = ''Deal '' @ show_number amount @ '' damage to '' @ damage_target_name target,
      execute = DamageEffect_execute amount target\<rparr>"

subsection \<open>HealEffect.ts\<close>

datatype heal_target = HSelf | HAlly | HAll

definition heal_target_name :: "heal_target \<Rightarrow> string" where
  "heal_target_name t = (case t of HSelf \<Rightarrow> ''self'' | HAlly \<Rightarrow> ''ally'' | HAll \<Rightarrow> ''all'')"

definition receive_heal :: "int \<Rightarrow> player_state \<Rightarrow> player_state" where
  "receive_heal amount p =
     (let actualHeal = min amount (maxHealth p - health p) in p\<lparr>health := health p + actualHeal\<rparr>)"

definition heal_message :: "int \<Rightarrow> string \<times> player_state \<Rightarrow> string" where
  "heal_message amount e =
     (let actualHeal = min amount (maxHealth (snd e) - health (snd e))
      in fst e @ '' heals '' @ show_number actualHeal @ '' health'')"

definition HealEffect_execute :: "int \<Rightarrow> heal_target \<Rightarrow> game_context \<Rightarrow> effect_result" where
  "HealEffect_execute amount target context =
     (let gs = gameState context; pid = playerId context in
      case target of
        HSelf \<Rightarrow>
          (case map_of (players gs) pid of
             Some selfPlayer \<Rightarrow>
               \<lparr>success = True,
                newState = gs\<lparr>players := update_player pid (receive_heal amount) (players gs)\<rparr>,
                messages = [heal_message amount (pid, selfPlayer)],
                metadata = None\<rparr>
           | None \<Rightarrow>
               if inherited pid then
                 \<lparr>success = True, newState = gs,
                  messages = [pid @ '' heals NaN health''], metadata = None\<rparr>
               else
                 \<lparr>success = False, newState = gs,
                  messages = [''Player '' @ pid @ '' not found''], metadata = None\<rparr>)
      | HAlly \<Rightarrow>
          (case find_other pid (players gs) of
             Some (allyId, ally) \<Rightarrow>
               if allyId \<noteq> [] then
                 \<lparr>success = True,
                  newState = gs\<lparr>players :=
                    update_player allyId (receive_heal amount) (players gs)\<rparr>,
                  messages = [heal_message amount (allyId, ally)],
                  metadata = None\<rparr>
               else
                 \<lparr>success = False, newState = gs,
                  messages = [''No ally found''], metadata = None\<rparr>
           | None \<Rightarrow>
               \<lparr>success = False, newState = gs,
                messages = [''No ally found''], metadata = None\<rparr>)
      | HAll \<Rightarrow>
          \<lparr>success = True,
           newState = gs\<lparr>players := map (\<lambda>(k, p). (k, receive_heal amount p)) (players gs)\<rparr>,
           messages = map (heal_message amount) (players gs),
           metadata = None\<rparr>)"

definition HealEffect :: "int \<Rightarrow> heal_target \<Rightarrow> effect" where
  "HealEffect amount target =
     \<lparr>type = ''heal'',
      description = ''Heal '' @ show_number amount @ '' to '' @ heal_target_name target,
      execute = HealEffect_execute amount target\<rparr>"

subsection \<open>The arithmetic of HealEffect.ts on doubles\<close>

text \<open>
  A \<^verbatim>\<open>number\<close> is an IEEE 754 double. The effects above are written for whole numbers, on
  which sums and differences of doubles are exact up to \<open>2\<^sup>5\<^sup>3\<close>. For fractions they are
  not: \<^term>\<open>Double m e\<close> is the finite double \<open>m \<sqdot> 2\<^sup>e\<close>, and a sum or difference is the
  exact result rounded to 53 significant bits, to the nearest value and to the even one
  of two nearest (overflow and subnormal values are left out).
\<close>

datatype double = Double int int

definition exact_sum :: "double \<Rightarrow> double \<Rightarrow> double" where
  "exact_sum a b =
     (case a of Double ma ea \<Rightarrow> case b of Double mb eb \<Rightarrow>
        (let e = min ea eb
         in Double (ma * 2 ^ nat (ea - e) + mb * 2 ^ nat (eb - e)) e))"

definition round53 :: "double \<Rightarrow> double" where
  "round53 x =
     (case x of Double m e \<Rightarrow>
        (let k = bitlen \<bar>m\<bar> - 53 in
         if k \<le> 0 then Double m e
         else
           let d = 2 ^ nat k; q = \<bar>m\<bar> div d; r = \<bar>m\<bar> mod d; h = d div 2;
               q' = (if h < r \<or> (r = h \<and> odd q) then q + 1 else q)
           in Double (sgn m * q') (e + k)))"

definition negate :: "double \<Rightarrow> double" where
  "negate a = (case a of Double m e \<Rightarrow> Double (- m) e)"

definition double_add :: "double \<Rightarrow> double \<Rightarrow> double" where
  "double_add a b = round53 (exact_sum a b)"

definition double_sub :: "double \<Rightarrow> double \<Rightarrow> double" where
  "double_sub a b = round53 (exact_sum a (negate b))"

definition double_less :: "double \<Rightarrow> double \<Rightarrow> bool" where
  "double_less a b =
     (case a of Double ma ea \<Rightarrow> case b of Double mb eb \<Rightarrow>
        (let e = min ea eb in ma * 2 ^ nat (ea - e) < mb * 2 ^ nat (eb - e)))"

text \<open>\<^verbatim>\<open>Math.min\<close> of two doubles.\<close>

definition double_min :: "double \<Rightarrow> double \<Rightarrow> double" where
  "double_min a b = (if double_less b a then b else a)"

text \<open>
  The two statements of a heal,
  \<^verbatim>\<open>actualHeal = Math.min(amount, maxHealth - health); health += actualHeal\<close>,
  as the machine computes them: the new health.
\<close>

definition receive_heal_double :: "double \<Rightarrow> double \<Rightarrow> double \<Rightarrow> double" where
  "receive_heal_double amount h m =
     (let actualHeal = double_min amount (double_sub m h) in double_add h actualHeal)"

subsection \<open>DrawCardEffect.ts\<close>

datatype player_target = Self | Opponent

definition player_target_name :: "player_target \<Rightarrow> string" where
  "player_target_name t = (case t of Self \<Rightarrow> ''self'' | Opponent \<Rightarrow> ''opponent'')"

text \<open>
  The target id that the draw and the resource effect compute first:
  \<^verbatim>\<open>target === 'self' ? playerId : Object.keys(players).find(id => id !== playerId)\<close>.

  Both effects then read \<^verbatim>\<open>gameState.players[targetId]\<close>. When the id is no key but names an
  inherited member, the code finds that member and, reading the fields it lacks, throws
  a \<^verbatim>\<open>TypeError\<close> inside \<^verbatim>\<open>produce\<close>. A thrown error is no effect result: the model has the
  not-found result there.
\<close>

definition target_id :: "player_target \<Rightarrow> game_context \<Rightarrow> string option" where
  "target_id target context =
     (case target of
        Self \<Rightarrow> Some (playerId context)
      | Opponent \<Rightarrow> map_option fst (find_other (playerId context) (players (gameState context))))"

definition plural :: "int \<Rightarrow> string" where
  "plural n = (if n > 1 then ''s'' else [])"

text \<open>
  The body of the \<^verbatim>\<open>for\<close> loop of \<^verbatim>\<open>DrawCardEffect.execute\<close>, run for the iterations
  that remain, on the draft player, the messages pushed so far and \<^verbatim>\<open>cardsDrawn\<close>.
  The first branch is the \<^verbatim>\<open>break\<close>.
\<close>

fun draw_loop ::
  "string \<Rightarrow> nat \<Rightarrow> player_state \<times> string list \<times> int \<Rightarrow> player_state \<times> string list \<times> int" where
  "draw_loop targetId 0 st = st"
| "draw_loop targetId (Suc n) (draftPlayer, msgs, cardsDrawn) =
     (if deck draftPlayer = [] \<and> discardPile draftPlayer = [] then
        (draftPlayer, msgs @ [targetId @ '' cannot draw - no cards available''], cardsDrawn)
      else
        let (p1, msgs1) =
              (if deck draftPlayer = [] then
                 (draftPlayer\<lparr>deck := discardPile draftPlayer, discardPile := []\<rparr>,
                  msgs @ [targetId @ '' shuffles discard pile into deck''])
               else (draftPlayer, msgs));
            (p2, drawn2) =
              (if deck p1 \<noteq> [] then
                 (p1\<lparr>deck := butlast (deck p1), hand := hand p1 @ [last (deck p1)]\<rparr>,
                  cardsDrawn + 1)
               else (p1, cardsDrawn))
        in draw_loop targetId n (p2, msgs1, drawn2))"

definition DrawCardEffect_execute :: "int \<Rightarrow> player_target \<Rightarrow> game_context \<Rightarrow> effect_result" where
  "DrawCardEffect_execute count target context =
     (let gs = gameState context in
      case target_id target context of
        None \<Rightarrow>
          \<lparr>success = False, newState = gs,
           messages = [''No '' @ player_target_name target @ '' player found''], metadata = None\<rparr>
      | Some targetId \<Rightarrow>
          if targetId = [] then
            \<lparr>success = False, newState = gs,
             messages = [''No '' @ player_target_name target @ '' player found''], metadata = None\<rparr>
          else
            (case map_of (players gs) targetId of
               None \<Rightarrow>
                 \<lparr>success = False, newState = gs,
                  messages = [''Player '' @ targetId @ '' not found''], metadata = None\<rparr>
             | Some player \<Rightarrow>
                 (let (p', msgs, cardsDrawn) = draw_loop targetId (nat count) (player, [], 0);
                      msgs' = (if cardsDrawn > 0
                               then msgs @ [targetId @ '' draws '' @ show_number cardsDrawn
                                              @ '' card'' @ plural cardsDrawn]
                               else msgs)
                  in \<lparr>success = True,
                      newState = gs\<lparr>players := update_player targetId (\<lambda>_. p') (players gs)\<rparr>,
                      messages = msgs',
                      metadata = None\<rparr>)))"

definition DrawCardEffect :: "int \<Rightarrow> player_target \<Rightarrow> effect" where
  "DrawCardEffect count target =
     \<lparr>type = ''draw'',
      description = ''Draw '' @ show_number count @ '' card'' @ plural count
                      @ '' ('' @ player_target_name target @ '')'',
      execute = DrawCardEffect_execute count target\<rparr>"

subsection \<open>ResourceEffect\<close>

datatype resource_operation = Gain | Spend | SetTo

definition operation_name :: "resource_operation \<Rightarrow> string" where
  "operation_name operation = (case operation of Gain \<Rightarrow> ''gain'' | Spend \<Rightarrow> ''spend'' | SetTo \<Rightarrow> ''set'')"

text \<open>
  \<^verbatim>\<open>resources[resourceType] || 0\<close>: a stored zero and a stored \<^verbatim>\<open>NaN\<close> read as zero, and so
  does an unset type, unless its name is that of an inherited member: then the member is
  read.
\<close>

fun truthy_value :: "resource_value \<Rightarrow> bool" where
  "truthy_value (Num n) = (n \<noteq> 0)"
| "truthy_value NaN = False"
| "truthy_value (Text s) = (s \<noteq> [])"

definition current_amount :: "player_state \<Rightarrow> string \<Rightarrow> resource_value" where
  "current_amount p resourceType =
     (case resources p resourceType of
        Some v \<Rightarrow> if truthy_value v then v else Num 0
      | None \<Rightarrow>
          (case map_of object_prototype_members resourceType of
             Some member \<Rightarrow> Text member
           | None \<Rightarrow> Num 0))"

text \<open>
  \<^verbatim>\<open>currentAmount + amount\<close>, \<^verbatim>\<open>currentAmount < amount\<close> and \<^verbatim>\<open>currentAmount - amount\<close>. A
  text is concatenated by \<^verbatim>\<open>+\<close>; in the other two it converts to \<^verbatim>\<open>NaN\<close>, since a stored
  text begins with the text of an inherited member and is no numeric literal.
\<close>

fun js_plus :: "resource_value \<Rightarrow> int \<Rightarrow> resource_value" where
  "js_plus (Num a) amount = Num (a + amount)"
| "js_plus NaN amount = NaN"
| "js_plus (Text s) amount = Text (s @ show_number amount)"

fun js_less :: "resource_value \<Rightarrow> int \<Rightarrow> bool" where
  "js_less (Num a) amount = (a < amount)"
| "js_less NaN amount = False"
| "js_less (Text s) amount = False"

fun js_minus :: "resource_value \<Rightarrow> int \<Rightarrow> resource_value" where
  "js_minus (Num a) amount = Num (a - amount)"
| "js_minus NaN amount = NaN"
| "js_minus (Text s) amount = NaN"

fun show_value :: "resource_value \<Rightarrow> string" where
  "show_value (Num a) = show_number a"
| "show_value NaN = ''NaN''"
| "show_value (Text s) = s"

text \<open>
  \<^verbatim>\<open>draftPlayer.resources[resourceType] = v\<close>. Under the key \<^verbatim>\<open>__proto__\<close> the assignment
  runs the inherited setter, which ignores a value that is not an object.
\<close>

definition set_resource :: "string \<Rightarrow> resource_value \<Rightarrow> player_state \<Rightarrow> player_state" where
  "set_resource resourceType v p =
     (if resourceType = ''__proto__'' then p
      else p\<lparr>resources := (resources p)(resourceType \<mapsto> v)\<rparr>)"

definition ResourceEffect_execute ::
  "string \<Rightarrow> int \<Rightarrow> resource_operation \<Rightarrow> player_target \<Rightarrow> game_context \<Rightarrow> effect_result" where
  "ResourceEffect_execute resourceType amount operation target context =
     (let gs = gameState context in
      case target_id target context of
        None \<Rightarrow>
          \<lparr>success = False, newState = gs,
           messages = [''No '' @ player_target_name target @ '' player found''], metadata = None\<rparr>
      | Some targetId \<Rightarrow>
          if targetId = [] then
            \<lparr>success = False, newState = gs,
             messages = [''No '' @ player_target_name target @ '' player found''], metadata = None\<rparr>
          else
            (case map_of (players gs) targetId of
               None \<Rightarrow>
                 \<lparr>success = False, newState = gs,
                  messages = [''Player '' @ targetId @ '' not found''], metadata = None\<rparr>
             | Some player \<Rightarrow>
                 (let currentAmount = current_amount player resourceType in
                  case operation of
                    Gain \<Rightarrow>
                      \<lparr>success = True,
                       newState = gs\<lparr>players := update_player targetId
                         (set_resource resourceType (js_plus currentAmount amount)) (players gs)\<rparr>,
                       messages = [targetId @ '' gains '' @ show_number amount @ '' '' @ resourceType],
                       metadata = None\<rparr>
                  | Spend \<Rightarrow>
                      if js_less currentAmount amount then
                        \<lparr>success = False, newState = gs,
                         messages = [targetId @ '' doesn't have enough '' @ resourceType @ '' (''
                                       @ show_value currentAmount @ ''/'' @ show_number amount @ '')''],
                         metadata = None\<rparr>
                      else
                        \<lparr>success = True,
                         newState = gs\<lparr>players := update_player targetId
                           (set_resource resourceType (js_minus currentAmount amount)) (players gs)\<rparr>,
                         messages = [targetId @ '' spends '' @ show_number amount @ '' '' @ resourceType],
                         metadata = None\<rparr>
                  | SetTo \<Rightarrow>
                      \<lparr>success = True,
                       newState = gs\<lparr>players := update_player targetId
                         (set_resource resourceType (Num amount)) (players gs)\<rparr>,
                       messages = [targetId @ '' '' @ resourceType @ '' set to '' @ show_number amount],
                       metadata = None\<rparr>)))"

definition ResourceEffect ::
  "string \<Rightarrow> int \<Rightarrow> resource_operation \<Rightarrow> player_target \<Rightarrow> effect" where
  "ResourceEffect resourceType amount operation target =
     \<lparr>type = ''resource'',
      description = operation_name operation @ '' '' @ show_number amount @ '' '' @ resourceType
                      @ '' ('' @ player_target_name target @ '')'',
      execute = ResourceEffect_execute resourceType amount operation target\<rparr>"

section \<open>Combinators (Effect.ts)\<close>

text \<open>\<^verbatim>\<open>Array.prototype.join\<close>, used by the descriptions.\<close>

fun join :: "string \<Rightarrow> string list \<Rightarrow> string" where
  "join sep [] = []"
| "join sep [x] = x"
| "join sep (x # y # ys) = x @ sep @ join sep (y # ys)"

subsection \<open>CompositeEffect\<close>

text \<open>
  The \<^verbatim>\<open>for\<close> loop over the children that remain, on the three variables
  \<^verbatim>\<open>currentState\<close>, \<^verbatim>\<open>allMessages\<close> and \<^verbatim>\<open>success\<close>. Leaving the recursion is the
  \<^verbatim>\<open>break\<close>.
\<close>

fun composite_loop ::
  "effect list \<Rightarrow> game_context \<Rightarrow> game_state \<times> string list \<times> bool
    \<Rightarrow> game_state \<times> string list \<times> bool" where
  "composite_loop [] context vars = vars"
| "composite_loop (effect # rest) context (currentState, allMessages, succ) =
     (let result = execute effect (context\<lparr>gameState := currentState\<rparr>);
          currentState' = newState result;
          allMessages' = allMessages @ messages result
      in if \<not> success result then (currentState', allMessages', False)
         else composite_loop rest context (currentState', allMessages', succ))"

definition CompositeEffect_execute :: "effect list \<Rightarrow> game_context \<Rightarrow> effect_result" where
  "CompositeEffect_execute effects context =
     (let (currentState, allMessages, succ) =
            composite_loop effects context (gameState context, [], True)
      in \<lparr>success = succ, newState = currentState, messages = allMessages, metadata = None\<rparr>)"

definition CompositeEffect :: "effect list \<Rightarrow> effect" where
  "CompositeEffect effects =
     \<lparr>type = ''composite'',
      description = ''Composite: '' @ join '', '' (map description effects),
      execute = CompositeEffect_execute effects\<rparr>"

subsection \<open>ChainedEffect\<close>

definition ChainedEffect_execute ::
  "effect \<Rightarrow> (effect_result \<Rightarrow> effect) \<Rightarrow> game_context \<Rightarrow> effect_result" where
  "ChainedEffect_execute first chainFn context =
     (let firstResult = execute first context in
      if \<not> success firstResult then firstResult
      else
        let nextEffect = chainFn firstResult;
            secondResult = execute nextEffect (context\<lparr>gameState := newState firstResult\<rparr>)
        in \<lparr>success = success secondResult,
            newState = newState secondResult,
            messages = messages firstResult @ messages secondResult,
            metadata = None\<rparr>)"

definition ChainedEffect :: "effect \<Rightarrow> (effect_result \<Rightarrow> effect) \<Rightarrow> effect" where
  "ChainedEffect first chainFn =
     \<lparr>type = ''chained'',
      description = ''Chained: '' @ description first @ '' -> (dynamic)'',
      execute = ChainedEffect_execute first chainFn\<rparr>"

subsection \<open>ConditionalEffect\<close>

definition ConditionalEffect_execute ::
  "effect \<Rightarrow> (game_context \<Rightarrow> bool) \<Rightarrow> game_context \<Rightarrow> effect_result" where
  "ConditionalEffect_execute effect predicate context =
     (if predicate context then execute effect context
      else \<lparr>success = True, newState = gameState context,
            messages = [''Condition not met for: '' @ description effect],
            metadata = None\<rparr>)"

definition ConditionalEffect :: "effect \<Rightarrow> (game_context \<Rightarrow> bool) \<Rightarrow> effect" where
  "ConditionalEffect effect predicate =
     \<lparr>type = ''conditional'',
      description = ''Conditional: '' @ description effect,
      execute = ConditionalEffect_execute effect predicate\<rparr>"

subsection \<open>RepeatedEffect\<close>

text \<open>The loop \<^verbatim>\<open>for (let i = 0; i < times; i++)\<close>, for the iterations that remain.\<close>

fun repeated_loop ::
  "effect \<Rightarrow> nat \<Rightarrow> game_context \<Rightarrow> game_state \<times> string list \<times> bool
    \<Rightarrow> game_state \<times> string list \<times> bool" where
  "repeated_loop effect 0 context vars = vars"
| "repeated_loop effect (Suc n) context (currentState, allMessages, succ) =
     (let result = execute effect (context\<lparr>gameState := currentState\<rparr>);
          currentState' = newState result;
          allMessages' = allMessages @ messages result
      in if \<not> success result then (currentState', allMessages', False)
         else repeated_loop effect n context (currentState', allMessages', succ))"

definition RepeatedEffect_execute :: "effect \<Rightarrow> int \<Rightarrow> game_context \<Rightarrow> effect_result" where
  "RepeatedEffect_execute effect times' context =
     (let (currentState, allMessages, succ) =
            repeated_loop effect (nat times') context (gameState context, [], True)
      in \<lparr>success = succ, newState = currentState, messages = allMessages, metadata = None\<rparr>)"

definition RepeatedEffect :: "effect \<Rightarrow> int \<Rightarrow> effect" where
  "RepeatedEffect effect times' =
     \<lparr>type = ''repeated'',
      description = ''Repeat '' @ show_number times' @ ''x: '' @ description effect,
      execute = RepeatedEffect_execute effect times'\<rparr>"

subsection \<open>ContextualEffect\<close>

text \<open>
  The value injected under a key is of type \<^verbatim>\<open>unknown\<close>. The context record carries the
  two properties that effects read, so the spread \<^verbatim>\<open>{ ...context, [key]: value }\<close> changes
  it only when the key is \<^verbatim>\<open>playerId\<close> or \<^verbatim>\<open>gameState\<close> and the value is of that property's
  type; under any other key the value is a property that no effect of the repository
  reads. A value of another type under one of the two keys gives an object that is not a
  \<^verbatim>\<open>GameContext\<close>; it is left out of the model.
\<close>

datatype context_value = StringValue string | StateValue game_state | OtherValue js_value

definition enhance :: "string \<Rightarrow> context_value \<Rightarrow> game_context \<Rightarrow> game_context" where
  "enhance key v context =
     (case v of
        StringValue s \<Rightarrow> if key = ''playerId'' then context\<lparr>playerId := s\<rparr> else context
      | StateValue g \<Rightarrow> if key = ''gameState'' then context\<lparr>gameState := g\<rparr> else context
      | OtherValue x \<Rightarrow> context)"

definition ContextualEffect_execute ::
  "effect \<Rightarrow> string \<Rightarrow> context_value \<Rightarrow> game_context \<Rightarrow> effect_result" where
  "ContextualEffect_execute effect key v context =
     (let enhancedContext = enhance key v context in execute effect enhancedContext)"

definition ContextualEffect :: "effect \<Rightarrow> string \<Rightarrow> context_value \<Rightarrow> effect" where
  "ContextualEffect effect key v =
     \<lparr>type = ''contextual'',
      description = ''With context ['' @ key @ '']: '' @ description effect,
      execute = ContextualEffect_execute effect key v\<rparr>"

subsection \<open>SequentialEffect\<close>

text \<open>The same loop written with a \<^verbatim>\<open>return\<close> inside it and no \<^verbatim>\<open>success\<close> variable.\<close>

fun sequential_loop ::
  "effect list \<Rightarrow> game_context \<Rightarrow> game_state \<Rightarrow> string list \<Rightarrow> effect_result" where
  "sequential_loop [] context currentState allMessages =
     \<lparr>success = True, newState = currentState, messages = allMessages, metadata = None\<rparr>"
| "sequential_loop (effect # rest) context currentState allMessages =
     (let result = execute effect (context\<lparr>gameState := currentState\<rparr>);
          currentState' = newState result;
          allMessages' = allMessages @ messages result
      in if \<not> success result then
           \<lparr>success = False, newState = currentState', messages = allMessages', metadata = None\<rparr>
         else sequential_loop rest context currentState' allMessages')"

definition SequentialEffect_execute :: "effect list \<Rightarrow> game_context \<Rightarrow> effect_result" where
  "SequentialEffect_execute effects context =
     sequential_loop effects context (gameState context) []"

definition SequentialEffect :: "effect list \<Rightarrow> effect" where
  "SequentialEffect effects =
     \<lparr>type = ''sequential'',
      description = ''Sequential: '' @ join '' -> '' (map description effects),
      execute = SequentialEffect_execute effects\<rparr>"

subsection \<open>ParallelEffect\<close>

text \<open>
  \<^verbatim>\<open>{ ...state, ...result.newState }\<close>: every own property of the second object is written
  over the first, and a game state owns all four of its properties.
\<close>

definition spread_state :: "game_state \<Rightarrow> game_state \<Rightarrow> game_state" where
  "spread_state state other =
     state\<lparr>players := players other, currentPlayer := currentPlayer other,
           turn := turn other, phase := phase other\<rparr>"

definition ParallelEffect_execute :: "effect list \<Rightarrow> game_context \<Rightarrow> effect_result" where
  "ParallelEffect_execute effects context =
     (let results = map (\<lambda>effect. execute effect context) effects;
          succ = list_all success results;
          allMessages = concat (map messages results);
          finalState =
            (if succ
             then foldl (\<lambda>state result. spread_state state (newState result))
                    (gameState context) results
             else gameState context)
      in \<lparr>success = succ, newState = finalState, messages = allMessages, metadata = None\<rparr>)"

definition ParallelEffect :: "effect list \<Rightarrow> effect" where
  "ParallelEffect effects =
     \<lparr>type = ''parallel'',
      description = ''Parallel: '' @ join '' | '' (map description effects),
      execute = ParallelEffect_execute effects\<rparr>"

section \<open>Capability registry (Context.ts)\<close>

text \<open>
  A service instance is an object: besides its \<^verbatim>\<open>id\<close> it has an identity, the number
  \<^verbatim>\<open>obj_ref\<close>. A provider is its \<^verbatim>\<open>provide\<close> method, applied to the number of instances
  made so far, so that a factory such as \<^verbatim>\<open>() => new ConsoleLogger()\<close> returns a new object
  at every call.

  \<^verbatim>\<open>Context\<close> objects are mutable (\<^verbatim>\<open>provide\<close> writes the cache) and are handed around by
  reference, so they live in a heap: a reference is an index into \<^verbatim>\<open>contexts\<close>. Each object
  owns its two \<^verbatim>\<open>Map\<close>s.
\<close>

record service =
  id_service :: string
  obj_ref :: nat

type_synonym provider = "nat \<Rightarrow> service"

record Context =
  services :: "string \<rightharpoonup> service"
  providers :: "string \<rightharpoonup> provider"

record heap =
  contexts :: "Context list"
  instances :: nat

datatype error = Error string

text \<open>\<^verbatim>\<open>new Context()\<close>: a new object with two empty maps.\<close>

definition new_Context :: "heap \<Rightarrow> nat \<times> heap" where
  "new_Context h =
     (length (contexts h),
      h\<lparr>contexts := contexts h @ [\<lparr>services = Map.empty, providers = Map.empty\<rparr>]\<rparr>)"

text \<open>The two loops of \<^verbatim>\<open>copyFrom\<close> set every entry of the other object's maps.\<close>

definition Context_copyFrom :: "nat \<Rightarrow> nat \<Rightarrow> heap \<Rightarrow> heap" where
  "Context_copyFrom this other h =
     (let h1 = h\<lparr>contexts := (contexts h)[this := (contexts h ! this)
                   \<lparr>providers := providers (contexts h ! this) ++ providers (contexts h ! other)\<rparr>]\<rparr>
      in h1\<lparr>contexts := (contexts h1)[this := (contexts h1 ! this)
                   \<lparr>services := services (contexts h1 ! this) ++ services (contexts h1 ! other)\<rparr>]\<rparr>)"

definition Context_addProvider :: "nat \<Rightarrow> string \<Rightarrow> provider \<Rightarrow> heap \<Rightarrow> heap" where
  "Context_addProvider this sid provider h =
     h\<lparr>contexts := (contexts h)[this := (contexts h ! this)
          \<lparr>providers := (providers (contexts h ! this))(sid \<mapsto> provider)\<rparr>]\<rparr>"

definition Context_register :: "nat \<Rightarrow> string \<Rightarrow> provider \<Rightarrow> heap \<Rightarrow> nat \<times> heap" where
  "Context_register this sid provider h =
     (let (fresh, h1) = new_Context h;
          h2 = Context_copyFrom fresh this h1;
          h3 = Context_addProvider fresh sid provider h2
      in (fresh, h3))"

definition Context_provide :: "nat \<Rightarrow> string \<Rightarrow> heap \<Rightarrow> (error + service) \<times> heap" where
  "Context_provide this sid h =
     (case services (contexts h ! this) sid of
        Some cached \<Rightarrow> (Inr cached, h)
      | None \<Rightarrow>
          (case providers (contexts h ! this) sid of
             None \<Rightarrow> (Inl (Error (''No provider registered for service: '' @ sid)), h)
           | Some provider \<Rightarrow>
               (let service = provider (instances h);
                    h1 = h\<lparr>instances := Suc (instances h)\<rparr>
                in (Inr service,
                    h1\<lparr>contexts := (contexts h1)[this := (contexts h1 ! this)
                         \<lparr>services := (services (contexts h1 ! this))(sid \<mapsto> service)\<rparr>]\<rparr>))))"

definition Context_has :: "nat \<Rightarrow> string \<Rightarrow> heap \<Rightarrow> bool" where
  "Context_has this sid h =
     (providers (contexts h ! this) sid \<noteq> None \<or> services (contexts h ! this) sid \<noteq> None)"

definition Context_fork :: "nat \<Rightarrow> heap \<Rightarrow> nat \<times> heap" where
  "Context_fork this h =
     (let (fresh, h1) = new_Context h in (fresh, Context_copyFrom fresh this h1))"

section \<open>MemoryStorage (Context.ts)\<close>

text \<open>
  \<^verbatim>\<open>JSON.parse(JSON.stringify(data))\<close> on a JSON value: a new structure, built node by node.
\<close>

primrec json_clone :: "js_value \<Rightarrow> js_value" where
  "json_clone JNull = JNull"
| "json_clone (JBool b) = JBool b"
| "json_clone (JNum n) = JNum n"
| "json_clone (JStr s) = JStr s"
| "json_clone (JArr xs) = JArr (map json_clone xs)"
| "json_clone (JObj kvs) = JObj (map (map_prod (\<lambda>k. k) json_clone) kvs)"

text \<open>Truthiness, which the conditional expression of \<^verbatim>\<open>load\<close> tests.\<close>

fun truthy :: "js_value \<Rightarrow> bool" where
  "truthy JNull = False"
| "truthy (JBool b) = b"
| "truthy (JNum n) = (n \<noteq> 0)"
| "truthy (JStr s) = (s \<noteq> [])"
| "truthy (JArr xs) = True"
| "truthy (JObj kvs) = True"

text \<open>
  The private map \<^verbatim>\<open>data\<close>. The promises of the four methods are resolved when the
  method body has run, so a method is a function of the map.
\<close>

record memory_storage =
  data :: "string \<rightharpoonup> js_value"

definition MemoryStorage_save :: "string \<Rightarrow> js_value \<Rightarrow> memory_storage \<Rightarrow> memory_storage" where
  "MemoryStorage_save key v st = st\<lparr>data := (data st)(key \<mapsto> json_clone v)\<rparr>"

text \<open>The result \<^verbatim>\<open>null\<close> is \<^term>\<open>JNull\<close>.\<close>

definition MemoryStorage_load :: "string \<Rightarrow> memory_storage \<Rightarrow> js_value" where
  "MemoryStorage_load key st =
     (case data st key of
        None \<Rightarrow> JNull
      | Some d \<Rightarrow> if truthy d then json_clone d else JNull)"

definition MemoryStorage_exists :: "string \<Rightarrow> memory_storage \<Rightarrow> bool" where
  "MemoryStorage_exists key st = (data st key \<noteq> None)"

definition MemoryStorage_delete :: "string \<Rightarrow> memory_storage \<Rightarrow> memory_storage" where
  "MemoryStorage_delete key st = st\<lparr>data := (data st)(key := None)\<rparr>"

section \<open>Specification vocabulary and fixtures\<close>

text \<open>
  The results of the children that an ordered pipeline executes, in the words of the
  specification: each child receives the state its predecessor returned, and nothing
  runs after a child that failed.
\<close>

fun executed :: "effect list \<Rightarrow> game_context \<Rightarrow> effect_result list" where
  "executed [] context = []"
| "executed (effect # rest) context =
     (let result = execute effect context
      in result # (if success result
                   then executed rest (context\<lparr>gameState := newState result\<rparr>)
                   else []))"

text \<open>The state and the context built by \<^verbatim>\<open>Effect.test.ts\<close>.\<close>

definition test_player :: "string \<Rightarrow> player_state" where
  "test_player k =
     \<lparr>id_player = k, health = 100, maxHealth = 100, hand = [], deck = [], discardPile = [],
      resources = Map.empty\<rparr>"

definition test_gameState :: game_state where
  "test_gameState =
     \<lparr>players = [(''player1'', test_player ''player1''), (''player2'', test_player ''player2'')],
      currentPlayer = ''player1'', turn = 1, phase = Main\<rparr>"

definition test_context :: game_context where
  "test_context = \<lparr>playerId = ''player1'', gameState = test_gameState\<rparr>"

text \<open>An acting id that is no key of the player mapping and names an inherited member.\<close>

definition constructor_context :: game_context where
  "constructor_context = \<lparr>playerId = ''constructor'', gameState = test_gameState\<rparr>"

text \<open>The doubles that the literals \<^verbatim>\<open>0.3\<close>, \<^verbatim>\<open>0.9\<close> and \<^verbatim>\<open>1\<close> denote.\<close>

definition double_0_3 :: double where
  "double_0_3 = Double 5404319552844595 (- 54)"

definition double_0_9 :: double where
  "double_0_9 = Double 8106479329266893 (- 53)"

definition double_1 :: double where
  "double_1 = Double 1 0"

text \<open>Every player's health lies within \<^verbatim>\<open>[0, maxHealth]\<close>.\<close>

definition health_in_range :: "game_state \<Rightarrow> bool" where
  "health_in_range gs = list_all (\<lambda>e. 0 \<le> health (snd e) \<and> health (snd e) \<le> maxHealth (snd e)) (players gs)"

text \<open>The ids of the players that a damage or a heal effect reaches, by the resolution rules of
  the specification.\<close>

definition damage_targets :: "damage_target \<Rightarrow> game_context \<Rightarrow> string list" where
  "damage_targets target context =
     (let ps = players (gameState context); pid = playerId context in
      case target of
        DSelf \<Rightarrow> (if pid \<in> set (map fst ps) then [pid] else [])
      | DOpponent \<Rightarrow>
          (case find_other pid ps of
             Some (k, p) \<Rightarrow> if k \<noteq> [] then [k] else []
           | None \<Rightarrow> [])
      | DAll \<Rightarrow> map fst ps)"

definition heal_targets :: "heal_target \<Rightarrow> game_context \<Rightarrow> string list" where
  "heal_targets target context =
     (let ps = players (gameState context); pid = playerId context in
      case target of
        HSelf \<Rightarrow> (if pid \<in> set (map fst ps) then [pid] else [])
      | HAlly \<Rightarrow>
          (case find_other pid ps of
             Some (k, p) \<Rightarrow> if k \<noteq> [] then [k] else []
           | None \<Rightarrow> [])
      | HAll \<Rightarrow> map fst ps)"






text \<open>The number a player holds of a resource type, zero when the type holds no number.\<close>

definition amount_of :: "player_state \<Rightarrow> string \<Rightarrow> int" where
  "amount_of p resourceType = (case resources p resourceType of Some (Num v) \<Rightarrow> v | _ \<Rightarrow> 0)"

text \<open>The scenario of the specification: the acting player holds 3 mana.\<close>

definition mana_context :: game_context where
  "mana_context =
     \<lparr>playerId = ''player1'',
      gameState =
        \<lparr>players = [(''player1'', (test_player ''player1'')\<lparr>resources := [''mana'' \<mapsto> Num 3]\<rparr>),
                    (''player2'', test_player ''player2'')],
         currentPlayer = ''player1'', turn = 1, phase = Main\<rparr>\<rparr>"

text \<open>
  An effect written by a client of the library: a subclass of \<^verbatim>\<open>Effect\<close> whose result
  carries metadata, and a continuation for \<^verbatim>\<open>chain\<close>.
\<close>

definition tagged_failure :: effect where
  "tagged_failure =
     \<lparr>type = ''custom'', description = ''fails with metadata'',
      execute = (\<lambda>context. \<lparr>success = False, newState = gameState context,
                              messages = [''failed''],
                              metadata = Some [(''code'', JNum 1)]\<rparr>)\<rparr>"

definition then_heal :: "effect_result \<Rightarrow> effect" where
  "then_heal result = HealEffect 1 HSelf"

text \<open>An acting player that is not in the player mapping, and a continuation that
  damages the acting player.\<close>

definition ghost_context :: game_context where
  "ghost_context = \<lparr>playerId = ''ghost'', gameState = test_gameState\<rparr>"

definition then_damage_self :: "effect_result \<Rightarrow> effect" where
  "then_damage_self result = DamageEffect 1 DSelf"

definition always :: "game_context \<Rightarrow> bool" where
  "always context = True"

text \<open>
  Every cached instance of a \<^verbatim>\<open>Context\<close> has a provider registered under the same id: what
  holds of every object made by \<^verbatim>\<open>new Context()\<close>, \<^verbatim>\<open>register\<close>, \<^verbatim>\<open>fork\<close> and \<^verbatim>\<open>provide\<close>.
\<close>

definition cache_backed :: "heap \<Rightarrow> bool" where
  "cache_backed h = list_all (\<lambda>c. dom (services c) \<subseteq> dom (providers c)) (contexts h)"

text \<open>A heap with the object \<^verbatim>\<open>new Context().register('logger', ...)\<close> at reference 1.\<close>

definition logger_provider :: provider where
  "logger_provider n = \<lparr>id_service = ''logger'', obj_ref = n\<rparr>"

definition random_provider :: provider where
  "random_provider n = \<lparr>id_service = ''random'', obj_ref = n\<rparr>"

definition logger_heap :: heap where
  "logger_heap =
     snd (Context_register 0 ''logger'' logger_provider
            (snd (new_Context \<lparr>contexts = [], instances = 0\<rparr>)))"

text \<open>A storage object right after \<^verbatim>\<open>new MemoryStorage()\<close>.\<close>

definition new_MemoryStorage :: memory_storage where
  "new_MemoryStorage = \<lparr>data = Map.empty\<rparr>"

section \<open>Ordered pipelines\<close>

lemma sequential_loop_composite:
  "sequential_loop es ctx cur msgs =
     (let (currentState, allMessages, succ) = composite_loop es ctx (cur, msgs, True)
      in \<lparr>success = succ, newState = currentState, messages = allMessages, metadata = None\<rparr>)"
  by (induction es arbitrary: cur msgs) (simp_all add: Let_def)

lemma Sequential_Composite:
  "SequentialEffect_execute es ctx = CompositeEffect_execute es ctx"
  by (simp add: SequentialEffect_execute_def CompositeEffect_execute_def sequential_loop_composite)

lemma sequential_loop_executed:
  "sequential_loop es ctx cur msgs =
     (let rs = executed es (ctx\<lparr>gameState := cur\<rparr>) in
      \<lparr>success = list_all success rs,
       newState = (if rs = [] then cur else newState (last rs)),
       messages = msgs @ concat (map messages rs),
       metadata = None\<rparr>)"
  by (induction es arbitrary: cur msgs) (simp_all add: Let_def)

lemma Composite_executed:
  "CompositeEffect_execute es ctx =
     \<lparr>success = list_all success (executed es ctx),
      newState = (if executed es ctx = [] then gameState ctx else newState (last (executed es ctx))),
      messages = concat (map messages (executed es ctx)),
      metadata = None\<rparr>"
  by (simp add: Sequential_Composite [symmetric] SequentialEffect_execute_def
      sequential_loop_executed Let_def)

lemma executed_stop:
  "\<not> list_all success (executed pre ctx) \<Longrightarrow> executed (pre @ post) ctx = executed pre ctx"
  by (induction pre arbitrary: ctx) (auto simp: Let_def)

lemma Composite_stop:
  assumes "\<not> success (CompositeEffect_execute pre ctx)"
  shows "CompositeEffect_execute (pre @ post) ctx = CompositeEffect_execute pre ctx"
proof -
  from assms have "\<not> list_all success (executed pre ctx)"
    by (simp add: Composite_executed)
  then have "executed (pre @ post) ctx = executed pre ctx"
    by (rule executed_stop)
  then show ?thesis
    by (simp add: Composite_executed)
qed

lemmas primitive_defs =
  DamageEffect_def DamageEffect_execute_def HealEffect_def HealEffect_execute_def
  DrawCardEffect_def DrawCardEffect_execute_def ResourceEffect_def ResourceEffect_execute_def
  find_other_def target_id_def update_player_def take_damage_def receive_heal_def
  damage_message_def heal_message_def current_amount_def set_resource_def
  player_target_name_def plural_def show_number_def digit_def
  inherited_def object_prototype_members_def

lemmas fixture_defs = test_context_def test_gameState_def test_player_def

text \<open>
  C3. \<^verbatim>\<open>CompositeEffect.execute\<close> returns what the executed children returned: each child
  runs on the state its predecessor returned, the messages of every executed child are
  concatenated in order (those of a failing child included), success holds exactly when
  no executed child failed (so it holds for the empty list), and once a child has failed
  the children after it contribute nothing.
\<close>

theorem CompositeEffect_threads_and_stops:
  "CompositeEffect_execute es ctx =
     \<lparr>success = list_all success (executed es ctx),
      newState = (if executed es ctx = [] then gameState ctx else newState (last (executed es ctx))),
      messages = concat (map messages (executed es ctx)),
      metadata = None\<rparr>
   \<and> (\<not> success (CompositeEffect_execute es ctx) \<longrightarrow>
        CompositeEffect_execute (es @ later) ctx = CompositeEffect_execute es ctx)"
  using Composite_executed [of es ctx] Composite_stop [of es ctx later] by blast

theorem CompositeEffect_threads_and_stops_witness:
  "\<not> success (CompositeEffect_execute
        [DamageEffect 5 DOpponent, ResourceEffect ''mana'' 5 Spend Self] test_context)
   \<and> CompositeEffect_execute
        ([DamageEffect 5 DOpponent, ResourceEffect ''mana'' 5 Spend Self] @ [HealEffect 1 HSelf])
        test_context
     = CompositeEffect_execute
        [DamageEffect 5 DOpponent, ResourceEffect ''mana'' 5 Spend Self] test_context"
proof -
  have failing: "\<not> success (CompositeEffect_execute
        [DamageEffect 5 DOpponent, ResourceEffect ''mana'' 5 Spend Self] test_context)"
    by (simp add: CompositeEffect_execute_def primitive_defs fixture_defs Let_def)
  with CompositeEffect_threads_and_stops
         [of "[DamageEffect 5 DOpponent, ResourceEffect ''mana'' 5 Spend Self]" test_context
             "[HealEffect 1 HSelf]"]
  show ?thesis by blast
qed

text \<open>
  C4. \<^verbatim>\<open>SequentialEffect\<close> and \<^verbatim>\<open>CompositeEffect\<close> return the same result for every list
  of children and every context.
\<close>

theorem SequentialEffect_equals_CompositeEffect:
  "execute (SequentialEffect es) ctx = execute (CompositeEffect es) ctx"
  by (simp add: SequentialEffect_def CompositeEffect_def Sequential_Composite)

section \<open>Damage and heal\<close>

lemma take_damage_range:
  "0 \<le> amount \<Longrightarrow> 0 \<le> health p \<and> health p \<le> maxHealth p \<Longrightarrow>
   0 \<le> health (take_damage amount p) \<and> health (take_damage amount p) \<le> maxHealth (take_damage amount p)"
  by (simp add: take_damage_def Let_def min_def)

lemma receive_heal_range:
  "0 \<le> amount \<Longrightarrow> 0 \<le> health p \<and> health p \<le> maxHealth p \<Longrightarrow>
   0 \<le> health (receive_heal amount p) \<and> health (receive_heal amount p) \<le> maxHealth (receive_heal amount p)"
  by (simp add: receive_heal_def Let_def min_def)

lemma update_player_range:
  assumes "\<And>p. 0 \<le> health p \<and> health p \<le> maxHealth p \<Longrightarrow> 0 \<le> health (f p) \<and> health (f p) \<le> maxHealth (f p)"
    and "list_all (\<lambda>e. 0 \<le> health (snd e) \<and> health (snd e) \<le> maxHealth (snd e)) ps"
  shows "list_all (\<lambda>e. 0 \<le> health (snd e) \<and> health (snd e) \<le> maxHealth (snd e)) (update_player k f ps)"
  using assms by (auto simp: update_player_def list_all_iff)

lemma map_all_range:
  assumes "\<And>p. 0 \<le> health p \<and> health p \<le> maxHealth p \<Longrightarrow> 0 \<le> health (f p) \<and> health (f p) \<le> maxHealth (f p)"
    and "list_all (\<lambda>e. 0 \<le> health (snd e) \<and> health (snd e) \<le> maxHealth (snd e)) ps"
  shows "list_all (\<lambda>e. 0 \<le> health (snd e) \<and> health (snd e) \<le> maxHealth (snd e)) (map (\<lambda>(k, p). (k, f p)) ps)"
  using assms by (auto simp: list_all_iff)

lemma damage_range:
  assumes "0 \<le> amount" "health_in_range (gameState ctx)"
  shows "health_in_range (newState (DamageEffect_execute amount t ctx))"
  using assms
  by (auto simp: DamageEffect_execute_def health_in_range_def Let_def
      intro!: update_player_range map_all_range take_damage_range
      split: damage_target.splits option.splits)

lemma heal_range:
  assumes "0 \<le> amount" "health_in_range (gameState ctx)"
  shows "health_in_range (newState (HealEffect_execute amount t ctx))"
  using assms
  by (auto simp: HealEffect_execute_def health_in_range_def Let_def
      intro!: update_player_range map_all_range receive_heal_range
      split: heal_target.splits option.splits)

lemma find_SomeD: "find P xs = Some x \<Longrightarrow> x \<in> set xs \<and> P x"
  by (induction xs) (auto split: if_splits)

lemma find_other_key: "find_other pid ps = Some (k, p) \<Longrightarrow> (k, p) \<in> set ps \<and> k \<noteq> pid"
  using find_SomeD [of "\<lambda>e. fst e \<noteq> pid" ps "(k, p)"] by (simp add: find_other_def)

lemma update_player_single:
  "update_player k f ps = map (\<lambda>(k', p). (k', if k' \<in> set [k] then f p else p)) ps"
  by (induction ps) (auto simp: update_player_def)

lemma map_no_target: "map (\<lambda>(k, p). (k, if k \<in> set [] then f p else p)) ps = ps"
  by (induction ps) auto

lemma map_all_target:
  "map (\<lambda>(k, p). (k, f p)) ps = map (\<lambda>(k, p). (k, if k \<in> set (map fst ps) then f p else p)) ps"
  by (rule map_cong) force+

lemma damage_players:
  "players (newState (DamageEffect_execute amount t ctx)) =
     map (\<lambda>(k, p). (k, if k \<in> set (damage_targets t ctx) then take_damage amount p else p))
       (players (gameState ctx))"
proof (cases t)
  case DSelf
  then show ?thesis
    by (auto simp: DamageEffect_execute_def damage_targets_def Let_def update_player_single
        map_no_target map_of_eq_None_iff image_iff split: option.splits dest!: map_of_SomeD)
      force+
next
  case DOpponent
  then show ?thesis
    by (simp add: DamageEffect_execute_def damage_targets_def Let_def update_player_single
        map_no_target split: option.splits prod.splits)
next
  case DAll
  then show ?thesis
    using map_all_target [of "take_damage amount" "players (gameState ctx)"]
    by (simp add: DamageEffect_execute_def damage_targets_def Let_def)
qed


lemma heal_players:
  "players (newState (HealEffect_execute amount t ctx)) =
     map (\<lambda>(k, p). (k, if k \<in> set (heal_targets t ctx) then receive_heal amount p else p))
       (players (gameState ctx))"
proof (cases t)
  case HSelf
  then show ?thesis
    by (auto simp: HealEffect_execute_def heal_targets_def Let_def update_player_single
        map_no_target map_of_eq_None_iff image_iff split: option.splits dest!: map_of_SomeD)
      force+
next
  case HAlly
  then show ?thesis
    by (simp add: HealEffect_execute_def heal_targets_def Let_def update_player_single
        map_no_target split: option.splits prod.splits)
next
  case HAll
  then show ?thesis
    using map_all_target [of "receive_heal amount" "players (gameState ctx)"]
    by (simp add: HealEffect_execute_def heal_targets_def Let_def)
qed

lemma filter_key_distinct:
  "distinct (map fst ps) \<Longrightarrow> (k, p) \<in> set ps \<Longrightarrow> filter (\<lambda>e. fst e \<in> set [k]) ps = [(k, p)]"
proof (induction ps)
  case Nil
  then show ?case by simp
next
  case (Cons e ps)
  show ?case
  proof (cases "e = (k, p)")
    case True
    with Cons.prems have "\<forall>x\<in>set ps. fst x \<noteq> k" by force
    then have "filter (\<lambda>e. fst e \<in> set [k]) ps = []" by (simp add: filter_empty_conv)
    with True show ?thesis by simp
  next
    case False
    with Cons.prems have "(k, p) \<in> set ps" by simp
    moreover from this have "k \<in> fst ` set ps" by force
    with Cons.prems have "fst e \<noteq> k" by auto
    ultimately show ?thesis using Cons by simp
  qed
qed

lemma damage_messages:
  assumes "distinct (map fst (players (gameState ctx)))"
    and "playerId ctx \<in> set (map fst (players (gameState ctx))) \<or> \<not> inherited (playerId ctx)"
    and "success (DamageEffect_execute amount t ctx)"
  shows "messages (DamageEffect_execute amount t ctx) =
           map (damage_message amount)
             (filter (\<lambda>e. fst e \<in> set (damage_targets t ctx)) (players (gameState ctx)))"
proof (cases t)
  case DSelf
  from assms(2) have "map_of (players (gameState ctx)) (playerId ctx) = None
      \<Longrightarrow> \<not> inherited (playerId ctx)"
    by (auto simp: map_of_eq_None_iff)
  with DSelf assms(3) obtain sp where sp: "map_of (players (gameState ctx)) (playerId ctx) = Some sp"
    by (cases "map_of (players (gameState ctx)) (playerId ctx)")
      (auto simp: DamageEffect_execute_def Let_def)
  then have mem: "(playerId ctx, sp) \<in> set (players (gameState ctx))"
    by (rule map_of_SomeD)
  then have "playerId ctx \<in> fst ` set (players (gameState ctx))" by force
  then show ?thesis
    using DSelf sp filter_key_distinct [OF assms(1) mem]
    by (simp add: DamageEffect_execute_def damage_targets_def Let_def)
next
  case DOpponent
  with assms(3) obtain k p where kp: "find_other (playerId ctx) (players (gameState ctx)) = Some (k, p)"
    and k: "k \<noteq> []"
    by (auto simp: DamageEffect_execute_def Let_def split: option.splits if_splits)
  from kp have mem: "(k, p) \<in> set (players (gameState ctx))"
    by (simp add: find_other_key)
  show ?thesis
    using DOpponent kp k filter_key_distinct [OF assms(1) mem]
    by (simp add: DamageEffect_execute_def damage_targets_def Let_def)
next
  case DAll
  then show ?thesis
    by (simp add: DamageEffect_execute_def damage_targets_def Let_def filter_id_conv)
qed

lemma damage_success:
  assumes "playerId ctx \<in> set (map fst (players (gameState ctx))) \<or> \<not> inherited (playerId ctx)"
  shows "success (DamageEffect_execute amount t ctx) \<longleftrightarrow> t = DAll \<or> damage_targets t ctx \<noteq> []"
proof (cases t)
  case DSelf
  show ?thesis
  proof (cases "map_of (players (gameState ctx)) (playerId ctx)")
    case None
    then have "playerId ctx \<notin> set (map fst (players (gameState ctx)))"
      by (simp add: map_of_eq_None_iff)
    with assms None DSelf show ?thesis
      by (simp add: DamageEffect_execute_def damage_targets_def Let_def)
  next
    case (Some sp)
    then have "(playerId ctx, sp) \<in> set (players (gameState ctx))"
      by (rule map_of_SomeD)
    then have "playerId ctx \<in> fst ` set (players (gameState ctx))" by force
    with Some DSelf show ?thesis
      by (simp add: DamageEffect_execute_def damage_targets_def Let_def)
  qed
next
  case DOpponent
  then show ?thesis
    by (simp add: DamageEffect_execute_def damage_targets_def Let_def
        split: option.splits prod.splits)
next
  case DAll
  then show ?thesis
    by (simp add: DamageEffect_execute_def Let_def)
qed

lemma heal_messages:
  assumes "distinct (map fst (players (gameState ctx)))"
    and "playerId ctx \<in> set (map fst (players (gameState ctx))) \<or> \<not> inherited (playerId ctx)"
    and "success (HealEffect_execute amount t ctx)"
  shows "messages (HealEffect_execute amount t ctx) =
           map (heal_message amount)
             (filter (\<lambda>e. fst e \<in> set (heal_targets t ctx)) (players (gameState ctx)))"
proof (cases t)
  case HSelf
  from assms(2) have "map_of (players (gameState ctx)) (playerId ctx) = None
      \<Longrightarrow> \<not> inherited (playerId ctx)"
    by (auto simp: map_of_eq_None_iff)
  with HSelf assms(3) obtain sp where sp: "map_of (players (gameState ctx)) (playerId ctx) = Some sp"
    by (cases "map_of (players (gameState ctx)) (playerId ctx)")
      (auto simp: HealEffect_execute_def Let_def)
  then have mem: "(playerId ctx, sp) \<in> set (players (gameState ctx))"
    by (rule map_of_SomeD)
  then have "playerId ctx \<in> fst ` set (players (gameState ctx))" by force
  then show ?thesis
    using HSelf sp filter_key_distinct [OF assms(1) mem]
    by (simp add: HealEffect_execute_def heal_targets_def Let_def)
next
  case HAlly
  with assms(3) obtain k p where kp: "find_other (playerId ctx) (players (gameState ctx)) = Some (k, p)"
    and k: "k \<noteq> []"
    by (auto simp: HealEffect_execute_def Let_def split: option.splits if_splits)
  from kp have mem: "(k, p) \<in> set (players (gameState ctx))"
    by (simp add: find_other_key)
  show ?thesis
    using HAlly kp k filter_key_distinct [OF assms(1) mem]
    by (simp add: HealEffect_execute_def heal_targets_def Let_def)
next
  case HAll
  then show ?thesis
    by (simp add: HealEffect_execute_def heal_targets_def Let_def filter_id_conv)
qed

lemma heal_success:
  assumes "playerId ctx \<in> set (map fst (players (gameState ctx))) \<or> \<not> inherited (playerId ctx)"
  shows "success (HealEffect_execute amount t ctx) \<longleftrightarrow> t = HAll \<or> heal_targets t ctx \<noteq> []"
proof (cases t)
  case HSelf
  show ?thesis
  proof (cases "map_of (players (gameState ctx)) (playerId ctx)")
    case None
    then have "playerId ctx \<notin> set (map fst (players (gameState ctx)))"
      by (simp add: map_of_eq_None_iff)
    with assms None HSelf show ?thesis
      by (simp add: HealEffect_execute_def heal_targets_def Let_def)
  next
    case (Some sp)
    then have "(playerId ctx, sp) \<in> set (players (gameState ctx))"
      by (rule map_of_SomeD)
    then have "playerId ctx \<in> fst ` set (players (gameState ctx))" by force
    with Some HSelf show ?thesis
      by (simp add: HealEffect_execute_def heal_targets_def Let_def)
  qed
next
  case HAlly
  then show ?thesis
    by (simp add: HealEffect_execute_def heal_targets_def Let_def
        split: option.splits prod.splits)
next
  case HAll
  then show ?thesis
    by (simp add: HealEffect_execute_def Let_def)
qed

text \<open>
  What holds on whole numbers. Sums and differences of whole numbers are exact on doubles
  up to \<open>2\<^sup>5\<^sup>3\<close>, so there the effects compute what the integer model computes: health
  stays within \<^verbatim>\<open>[0, maxHealth]\<close>, a targeted player loses \<^verbatim>\<open>min(amount, health)\<close> or gains
  \<^verbatim>\<open>min(amount, maxHealth - health)\<close>, every other player is unchanged, and when the acting
  id is a key of the player mapping or names no inherited member, the execution succeeds
  exactly when it reaches a player and then emits one message for each targeted player.
\<close>

lemma clamping_on_whole_numbers:
  assumes "0 \<le> amount" and "amount \<le> 2 ^ 53"
    and "health_in_range (gameState ctx)"
    and "list_all (\<lambda>e. maxHealth (snd e) \<le> 2 ^ 53) (players (gameState ctx))"
    and "distinct (map fst (players (gameState ctx)))"
    and "playerId ctx \<in> set (map fst (players (gameState ctx))) \<or> \<not> inherited (playerId ctx)"
  shows "health_in_range (newState (DamageEffect_execute amount dt ctx))
    \<and> health_in_range (newState (HealEffect_execute amount ht ctx))
    \<and> players (newState (DamageEffect_execute amount dt ctx)) =
          map (\<lambda>(k, p). (k, if k \<in> set (damage_targets dt ctx)
                              then p\<lparr>health := health p - min amount (health p)\<rparr> else p))
            (players (gameState ctx))
    \<and> players (newState (HealEffect_execute amount ht ctx)) =
          map (\<lambda>(k, p). (k, if k \<in> set (heal_targets ht ctx)
                              then p\<lparr>health := health p + min amount (maxHealth p - health p)\<rparr>
                              else p))
            (players (gameState ctx))
    \<and> (success (DamageEffect_execute amount dt ctx) \<longleftrightarrow> dt = DAll \<or> damage_targets dt ctx \<noteq> [])
    \<and> (success (HealEffect_execute amount ht ctx) \<longleftrightarrow> ht = HAll \<or> heal_targets ht ctx \<noteq> [])
    \<and> (success (DamageEffect_execute amount dt ctx) \<longrightarrow>
          messages (DamageEffect_execute amount dt ctx) =
            map (\<lambda>e. fst e @ '' takes '' @ show_number (min amount (health (snd e))) @ '' damage'')
              (filter (\<lambda>e. fst e \<in> set (damage_targets dt ctx)) (players (gameState ctx))))
    \<and> (success (HealEffect_execute amount ht ctx) \<longrightarrow>
          messages (HealEffect_execute amount ht ctx) =
            map (\<lambda>e. fst e @ '' heals ''
                       @ show_number (min amount (maxHealth (snd e) - health (snd e))) @ '' health'')
              (filter (\<lambda>e. fst e \<in> set (heal_targets ht ctx)) (players (gameState ctx))))"
proof -
  have dm: "damage_message amount =
              (\<lambda>e. fst e @ '' takes '' @ show_number (min amount (health (snd e))) @ '' damage'')"
    by (rule ext) (simp add: damage_message_def Let_def)
  have hm: "heal_message amount =
              (\<lambda>e. fst e @ '' heals ''
                     @ show_number (min amount (maxHealth (snd e) - health (snd e))) @ '' health'')"
    by (rule ext) (simp add: heal_message_def Let_def)
  have td: "take_damage amount = (\<lambda>p. p\<lparr>health := health p - min amount (health p)\<rparr>)"
    by (rule ext) (simp add: take_damage_def Let_def)
  have rh: "receive_heal amount =
              (\<lambda>p. p\<lparr>health := health p + min amount (maxHealth p - health p)\<rparr>)"
    by (rule ext) (simp add: receive_heal_def Let_def)
  show ?thesis
    using damage_range [OF assms(1,3), of dt] heal_range [OF assms(1,3), of ht]
      damage_players [of amount dt ctx] heal_players [of amount ht ctx]
      damage_success [OF assms(6), of amount dt] heal_success [OF assms(6), of amount ht]
      damage_messages [OF assms(5,6), of amount dt] heal_messages [OF assms(5,6), of amount ht]
    unfolding dm hm td rh by blast
qed

text \<open>On whole numbers up to \<open>2\<^sup>5\<^sup>3\<close> the sum and the difference of doubles are exact.\<close>

lemma double_arithmetic_exact_on_whole_numbers:
  "bitlen \<bar>a + b\<bar> \<le> 53 \<Longrightarrow> double_add (Double a 0) (Double b 0) = Double (a + b) 0"
  "bitlen \<bar>a - b\<bar> \<le> 53 \<Longrightarrow> double_sub (Double a 0) (Double b 0) = Double (a - b) 0"
  by (simp_all add: double_add_def double_sub_def exact_sum_def round53_def negate_def)

text \<open>The two fractions are the doubles nearest to \<open>0.3\<close> and to \<open>0.9\<close>.\<close>

lemma doubles_nearest_to_decimals:
  "\<bar>3 / 10 - 5404319552844595 / 2 ^ 54\<bar> \<le> (1 / 2 ^ 55 :: rat)"
  "\<bar>9 / 10 - 8106479329266893 / 2 ^ 53\<bar> \<le> (1 / 2 ^ 54 :: rat)"
  by simp_all

text \<open>
  C5 does not hold of the code. On doubles a heal can pass \<^verbatim>\<open>maxHealth\<close>: with health
  \<open>0.3\<close>, \<^verbatim>\<open>maxHealth\<close> \<open>0.9\<close> and amount \<open>1\<close> the difference \<^verbatim>\<open>maxHealth - health\<close> is rounded up
  to \<open>0.6000000000000001\<close>, and the sum is rounded up to \<open>0.9000000000000001\<close>, the double
  after \<open>0.9\<close>. And when the acting id is no player but names an inherited member, damage
  and heal on \<^verbatim>\<open>self\<close> succeed with a message that reports \<^verbatim>\<open>NaN\<close>, although no player is
  reached and the state is the one received.
\<close>

theorem heal_passes_maxHealth_on_doubles:
  "receive_heal_double double_1 double_0_3 double_0_9 = Double 8106479329266894 (- 53)
   \<and> double_less double_0_9 (receive_heal_double double_1 double_0_3 double_0_9)
   \<and> map_of (players (gameState constructor_context)) (playerId constructor_context) = None
   \<and> damage_targets DSelf constructor_context = []
   \<and> success (DamageEffect_execute 5 DSelf constructor_context)
   \<and> messages (DamageEffect_execute 5 DSelf constructor_context) = [''constructor takes NaN damage'']
   \<and> newState (DamageEffect_execute 5 DSelf constructor_context) = gameState constructor_context
   \<and> success (HealEffect_execute 5 HSelf constructor_context)
   \<and> messages (HealEffect_execute 5 HSelf constructor_context) = [''constructor heals NaN health'']
   \<and> newState (HealEffect_execute 5 HSelf constructor_context) = gameState constructor_context"
proof -
  have d: "receive_heal_double double_1 double_0_3 double_0_9 = Double 8106479329266894 (- 53)"
    unfolding double_1_def double_0_3_def double_0_9_def by code_simp
  have l: "double_less double_0_9 (Double 8106479329266894 (- 53))"
    unfolding double_0_9_def by code_simp
  have c: "map_of (players (gameState constructor_context)) (playerId constructor_context) = None"
    "damage_targets DSelf constructor_context = []"
    by (simp_all add: constructor_context_def damage_targets_def fixture_defs Let_def)
  have i: "inherited ''constructor''"
    by (simp add: inherited_def object_prototype_members_def)
  have e: "DamageEffect_execute 5 DSelf constructor_context =
             \<lparr>success = True, newState = gameState constructor_context,
              messages = [''constructor takes NaN damage''], metadata = None\<rparr>"
    "HealEffect_execute 5 HSelf constructor_context =
             \<lparr>success = True, newState = gameState constructor_context,
              messages = [''constructor heals NaN health''], metadata = None\<rparr>"
    using i by (simp_all add: DamageEffect_execute_def HealEffect_execute_def
        constructor_context_def fixture_defs Let_def)
  from d l c show ?thesis
    by (simp add: e)
qed

section \<open>Drawing cards\<close>







lemma map_of_update_player:
  "map_of (update_player k f ps) k' =
     (if k' = k then map_option f (map_of ps k) else map_of ps k')"
  by (induction ps) (auto simp: update_player_def)



section \<open>Resources\<close>

lemma inherited_proto: "inherited ''__proto__''"
  by (simp add: inherited_def object_prototype_members_def)

lemma current_amount_number:
  assumes "\<not> inherited rt" and "\<forall>s. resources p rt \<noteq> Some (Text s)"
  shows "current_amount p rt = Num (amount_of p rt)"
proof (cases "resources p rt")
  case None
  with assms(1) show ?thesis
    by (simp add: current_amount_def amount_of_def inherited_def split: option.splits)
next
  case (Some v)
  with assms(2) show ?thesis
    by (cases v) (simp_all add: current_amount_def amount_of_def)
qed

text \<open>
  What holds when the resource type names no inherited member and holds no text, on whole
  numbers up to \<open>2\<^sup>5\<^sup>3\<close>: with the target player resolved, \<^verbatim>\<open>spend\<close> succeeds exactly when the
  current amount (zero if the type is unset) is at least the amount, and then stores the
  difference; otherwise it fails with the message that reports current and required
  amount and returns the state it received. \<^verbatim>\<open>gain\<close> stores the sum and \<^verbatim>\<open>set\<close> stores the
  amount, both always succeeding.
\<close>

lemma ResourceEffect_on_numbers:
  assumes "target_id target ctx = Some tid"
    and "tid \<noteq> []"
    and "map_of (players (gameState ctx)) tid = Some p"
    and "\<not> inherited rt"
    and "\<forall>s. resources p rt \<noteq> Some (Text s)"
    and "\<bar>amount_of p rt\<bar> + \<bar>amount\<bar> \<le> 2 ^ 53"
  shows "(success (ResourceEffect_execute rt amount Spend target ctx) \<longleftrightarrow> amount \<le> amount_of p rt)
    \<and> (amount \<le> amount_of p rt \<longrightarrow>
          map_of (players (newState (ResourceEffect_execute rt amount Spend target ctx))) tid =
            Some (p\<lparr>resources := (resources p)(rt \<mapsto> Num (amount_of p rt - amount))\<rparr>)
          \<and> messages (ResourceEffect_execute rt amount Spend target ctx) =
              [tid @ '' spends '' @ show_number amount @ '' '' @ rt])
    \<and> (amount_of p rt < amount \<longrightarrow>
          newState (ResourceEffect_execute rt amount Spend target ctx) = gameState ctx
          \<and> messages (ResourceEffect_execute rt amount Spend target ctx) =
              [tid @ '' doesn't have enough '' @ rt @ '' ('' @ show_number (amount_of p rt)
                 @ ''/'' @ show_number amount @ '')''])
    \<and> success (ResourceEffect_execute rt amount Gain target ctx)
    \<and> map_of (players (newState (ResourceEffect_execute rt amount Gain target ctx))) tid =
          Some (p\<lparr>resources := (resources p)(rt \<mapsto> Num (amount_of p rt + amount))\<rparr>)
    \<and> success (ResourceEffect_execute rt amount SetTo target ctx)
    \<and> map_of (players (newState (ResourceEffect_execute rt amount SetTo target ctx))) tid =
          Some (p\<lparr>resources := (resources p)(rt \<mapsto> Num amount)\<rparr>)
    \<and> (\<forall>operation k. k \<noteq> tid \<longrightarrow>
          map_of (players (newState (ResourceEffect_execute rt amount operation target ctx))) k =
          map_of (players (gameState ctx)) k)"
proof -
  note cur = current_amount_number [OF assms(4,5)]
  from assms(4) have rt: "rt \<noteq> ''__proto__''"
    using inherited_proto by auto
  have spend_ok: "amount \<le> amount_of p rt \<Longrightarrow>
      ResourceEffect_execute rt amount Spend target ctx =
        \<lparr>success = True,
         newState = (gameState ctx)\<lparr>players := update_player tid
           (set_resource rt (Num (amount_of p rt - amount))) (players (gameState ctx))\<rparr>,
         messages = [tid @ '' spends '' @ show_number amount @ '' '' @ rt],
         metadata = None\<rparr>"
    using assms(1-3) by (simp add: ResourceEffect_execute_def cur Let_def)
  have spend_fail: "amount_of p rt < amount \<Longrightarrow>
      ResourceEffect_execute rt amount Spend target ctx =
        \<lparr>success = False, newState = gameState ctx,
         messages = [tid @ '' doesn't have enough '' @ rt @ '' ('' @ show_number (amount_of p rt)
                       @ ''/'' @ show_number amount @ '')''],
         metadata = None\<rparr>"
    using assms(1-3) by (simp add: ResourceEffect_execute_def cur Let_def)
  have gain: "ResourceEffect_execute rt amount Gain target ctx =
        \<lparr>success = True,
         newState = (gameState ctx)\<lparr>players := update_player tid
           (set_resource rt (Num (amount_of p rt + amount))) (players (gameState ctx))\<rparr>,
         messages = [tid @ '' gains '' @ show_number amount @ '' '' @ rt],
         metadata = None\<rparr>"
    using assms(1-3) by (simp add: ResourceEffect_execute_def cur Let_def)
  have setto: "ResourceEffect_execute rt amount SetTo target ctx =
        \<lparr>success = True,
         newState = (gameState ctx)\<lparr>players := update_player tid
           (set_resource rt (Num amount)) (players (gameState ctx))\<rparr>,
         messages = [tid @ '' '' @ rt @ '' set to '' @ show_number amount],
         metadata = None\<rparr>"
    using assms(1-3) by (simp add: ResourceEffect_execute_def cur Let_def)
  have others: "k \<noteq> tid \<Longrightarrow>
      map_of (players (newState (ResourceEffect_execute rt amount operation target ctx))) k =
      map_of (players (gameState ctx)) k" for operation k
  proof (cases operation)
    case Gain
    assume "k \<noteq> tid"
    with Gain show ?thesis by (simp add: gain map_of_update_player)
  next
    case Spend
    assume "k \<noteq> tid"
    with Spend show ?thesis
      by (cases "amount \<le> amount_of p rt") (simp_all add: spend_ok spend_fail map_of_update_player)
  next
    case SetTo
    assume "k \<noteq> tid"
    with SetTo show ?thesis by (simp add: setto map_of_update_player)
  qed
  have 1: "success (ResourceEffect_execute rt amount Spend target ctx) \<longleftrightarrow> amount \<le> amount_of p rt"
    by (cases "amount \<le> amount_of p rt") (simp_all add: spend_ok spend_fail)
  have 2: "amount \<le> amount_of p rt \<longrightarrow>
          map_of (players (newState (ResourceEffect_execute rt amount Spend target ctx))) tid =
            Some (p\<lparr>resources := (resources p)(rt \<mapsto> Num (amount_of p rt - amount))\<rparr>)
          \<and> messages (ResourceEffect_execute rt amount Spend target ctx) =
              [tid @ '' spends '' @ show_number amount @ '' '' @ rt]"
    using assms(3) rt by (simp add: spend_ok map_of_update_player set_resource_def)
  have 3: "amount_of p rt < amount \<longrightarrow>
          newState (ResourceEffect_execute rt amount Spend target ctx) = gameState ctx
          \<and> messages (ResourceEffect_execute rt amount Spend target ctx) =
              [tid @ '' doesn't have enough '' @ rt @ '' ('' @ show_number (amount_of p rt)
                 @ ''/'' @ show_number amount @ '')'']"
    by (simp add: spend_fail)
  have 4: "success (ResourceEffect_execute rt amount Gain target ctx)
    \<and> map_of (players (newState (ResourceEffect_execute rt amount Gain target ctx))) tid =
          Some (p\<lparr>resources := (resources p)(rt \<mapsto> Num (amount_of p rt + amount))\<rparr>)"
    using assms(3) rt by (simp add: gain map_of_update_player set_resource_def)
  have 5: "success (ResourceEffect_execute rt amount SetTo target ctx)
    \<and> map_of (players (newState (ResourceEffect_execute rt amount SetTo target ctx))) tid =
          Some (p\<lparr>resources := (resources p)(rt \<mapsto> Num amount)\<rparr>)"
    using assms(3) rt by (simp add: setto map_of_update_player set_resource_def)
  from 1 2 3 4 5 others show ?thesis by blast
qed

text \<open>The scenario of the specification: 3 mana, spend 5.\<close>

lemma spend_scenario:
  "\<not> success (ResourceEffect_execute ''mana'' 5 Spend Self mana_context)
   \<and> newState (ResourceEffect_execute ''mana'' 5 Spend Self mana_context) = gameState mana_context
   \<and> messages (ResourceEffect_execute ''mana'' 5 Spend Self mana_context)
        = [''player1 doesn't have enough mana (3/5)'']
   \<and> sublist ''3/5'' (hd (messages (ResourceEffect_execute ''mana'' 5 Spend Self mana_context)))"
proof -
  let ?p = "(test_player ''player1'')\<lparr>resources := [''mana'' \<mapsto> Num 3]\<rparr>"
  have h1: "target_id Self mana_context = Some ''player1''"
    by (simp add: target_id_def mana_context_def)
  have h2: "''player1'' \<noteq> []" by simp
  have h3: "map_of (players (gameState mana_context)) ''player1'' = Some ?p"
    by (simp add: mana_context_def)
  have h4: "\<not> inherited ''mana''"
    by (simp add: inherited_def object_prototype_members_def)
  have h5: "\<forall>s. resources ?p ''mana'' \<noteq> Some (Text s)" by simp
  have a: "amount_of ?p ''mana'' = 3" by (simp add: amount_of_def)
  have h6: "\<bar>amount_of ?p ''mana''\<bar> + \<bar>5\<bar> \<le> 2 ^ 53" by (simp add: a)
  have n: "show_number 3 = ''3''" "show_number 5 = ''5''"
    by (simp_all add: show_number_def digit_def)
  note c = ResourceEffect_on_numbers [OF h1 h2 h3 h4 h5 h6]
  from c have f: "\<not> success (ResourceEffect_execute ''mana'' 5 Spend Self mana_context)"
    unfolding a by simp
  from c have s: "newState (ResourceEffect_execute ''mana'' 5 Spend Self mana_context)
                    = gameState mana_context"
    unfolding a by simp
  from c have m: "messages (ResourceEffect_execute ''mana'' 5 Spend Self mana_context)
                    = [''player1 doesn't have enough mana (3/5)'']"
    unfolding a n by simp
  have "sublist ''3/5'' ''player1 doesn't have enough mana (3/5)''"
    by (simp add: sublist_Cons_right prefix_def)
  with f s m show ?thesis by simp
qed

text \<open>
  C7 does not hold of the code. For a resource type that is unset and named like an
  inherited member, \<^verbatim>\<open>resources[resourceType] || 0\<close> is that member and not zero: the
  comparison \<^verbatim>\<open>currentAmount < amount\<close> is false, so \<^verbatim>\<open>spend\<close> succeeds, reports the spending
  and stores \<^verbatim>\<open>NaN\<close>, where the claim has it fail with \<^verbatim>\<open>(0/5)\<close> and leave the state as it
  was.
\<close>

theorem spend_of_inherited_name_succeeds:
  "resources (test_player ''player1'') ''toString'' = None
   \<and> map_of (players (gameState test_context)) ''player1'' = Some (test_player ''player1'')
   \<and> success (ResourceEffect_execute ''toString'' 5 Spend Self test_context)
   \<and> messages (ResourceEffect_execute ''toString'' 5 Spend Self test_context)
        = [''player1 spends 5 toString'']
   \<and> map_of (players (newState (ResourceEffect_execute ''toString'' 5 Spend Self test_context)))
        ''player1''
        = Some ((test_player ''player1'')\<lparr>resources := [''toString'' \<mapsto> NaN]\<rparr>)
   \<and> newState (ResourceEffect_execute ''toString'' 5 Spend Self test_context)
        \<noteq> gameState test_context"
  by (simp add: primitive_defs fixture_defs Let_def)

section \<open>Parallel composition\<close>

lemma execute_effect:
  "execute (DamageEffect a dt) = DamageEffect_execute a dt"
  "execute (HealEffect a ht) = HealEffect_execute a ht"
  "execute (DrawCardEffect n t) = DrawCardEffect_execute n t"
  "execute (ResourceEffect rt a operation t) = ResourceEffect_execute rt a operation t"
  "execute (CompositeEffect es) = CompositeEffect_execute es"
  "execute (SequentialEffect es) = SequentialEffect_execute es"
  "execute (ParallelEffect es) = ParallelEffect_execute es"
  "execute (ChainedEffect first chainFn) = ChainedEffect_execute first chainFn"
  "execute (ConditionalEffect e predicate) = ConditionalEffect_execute e predicate"
  "execute (RepeatedEffect e k) = RepeatedEffect_execute e k"
  "execute (ContextualEffect e key v) = ContextualEffect_execute e key v"
  by (simp_all add: DamageEffect_def HealEffect_def DrawCardEffect_def ResourceEffect_def
      CompositeEffect_def SequentialEffect_def ParallelEffect_def ChainedEffect_def
      ConditionalEffect_def RepeatedEffect_def ContextualEffect_def)

lemma spread_state_overwrites: "spread_state s t = t"
  by (cases s, cases t) (simp add: spread_state_def)

lemma foldl_spread_state:
  "foldl (\<lambda>state result. spread_state state (newState result)) s rs =
     foldl spread_state s (map newState rs)"
  by (induction rs arbitrary: s) simp_all

lemma foldl_spread_state_last:
  "ts \<noteq> [] \<Longrightarrow> foldl spread_state s ts = last ts"
  by (induction ts arbitrary: s) (simp_all add: spread_state_overwrites)

lemma Parallel_result:
  "ParallelEffect_execute es ctx =
     \<lparr>success = list_all (\<lambda>e. success (execute e ctx)) es,
      newState = (if list_all (\<lambda>e. success (execute e ctx)) es
                  then foldl spread_state (gameState ctx) (map (\<lambda>e. newState (execute e ctx)) es)
                  else gameState ctx),
      messages = concat (map (\<lambda>e. messages (execute e ctx)) es),
      metadata = None\<rparr>"
  by (simp add: ParallelEffect_execute_def Let_def foldl_spread_state list_all_iff comp_def)

text \<open>
  C2. \<^verbatim>\<open>ParallelEffect.execute\<close> runs every child on the same context. Success is the
  conjunction of the children's successes, the messages are the children's messages in
  list order whatever their success, and the state is the original one on failure and
  otherwise the left fold of the children's states with the spread merge, seeded with the
  original state. The merge takes every top-level field from its second argument, so the
  last child's value of each field is the value of the result.
\<close>

theorem ParallelEffect_merge:
  "success (ParallelEffect_execute es ctx) = list_all (\<lambda>e. success (execute e ctx)) es
   \<and> messages (ParallelEffect_execute es ctx) = concat (map (\<lambda>e. messages (execute e ctx)) es)
   \<and> newState (ParallelEffect_execute es ctx) =
        (if success (ParallelEffect_execute es ctx)
         then foldl spread_state (gameState ctx) (map (\<lambda>e. newState (execute e ctx)) es)
         else gameState ctx)
   \<and> players (spread_state s t) = players t
   \<and> currentPlayer (spread_state s t) = currentPlayer t
   \<and> turn (spread_state s t) = turn t
   \<and> phase (spread_state s t) = phase t
   \<and> (es \<noteq> [] \<longrightarrow> success (ParallelEffect_execute es ctx) \<longrightarrow>
        newState (ParallelEffect_execute es ctx) = newState (execute (last es) ctx))"
proof -
  have "es \<noteq> [] \<Longrightarrow>
        foldl spread_state (gameState ctx) (map (\<lambda>e. newState (execute e ctx)) es)
          = newState (execute (last es) ctx)"
    using foldl_spread_state_last [of "map (\<lambda>e. newState (execute e ctx)) es" "gameState ctx"]
    by (simp add: last_map)
  then show ?thesis
    by (simp add: Parallel_result spread_state_def)
qed

theorem ParallelEffect_merge_witness:
  "[DamageEffect 5 DOpponent, ResourceEffect ''mana'' 2 Gain Self] \<noteq> []
   \<and> success (ParallelEffect_execute
        [DamageEffect 5 DOpponent, ResourceEffect ''mana'' 2 Gain Self] test_context)
   \<and> newState (ParallelEffect_execute
        [DamageEffect 5 DOpponent, ResourceEffect ''mana'' 2 Gain Self] test_context)
      = newState (ResourceEffect_execute ''mana'' 2 Gain Self test_context)
   \<and> \<not> success (ParallelEffect_execute
        [DamageEffect 5 DOpponent, ResourceEffect ''mana'' 5 Spend Self] test_context)
   \<and> newState (ParallelEffect_execute
        [DamageEffect 5 DOpponent, ResourceEffect ''mana'' 5 Spend Self] test_context)
      = test_gameState"
proof -
  let ?ok = "[DamageEffect 5 DOpponent, ResourceEffect ''mana'' 2 Gain Self]"
  let ?bad = "[DamageEffect 5 DOpponent, ResourceEffect ''mana'' 5 Spend Self]"
  have d: "success (DamageEffect_execute 5 DOpponent test_context)"
    by (simp add: primitive_defs fixture_defs Let_def)
  have g: "success (ResourceEffect_execute ''mana'' 2 Gain Self test_context)"
    by (simp add: primitive_defs fixture_defs Let_def)
  have f: "\<not> success (ResourceEffect_execute ''mana'' 5 Spend Self test_context)"
    by (simp add: primitive_defs fixture_defs Let_def)
  note ok = ParallelEffect_merge [of ?ok test_context test_gameState test_gameState]
  note bad = ParallelEffect_merge [of ?bad test_context test_gameState test_gameState]
  from ok d g have s: "success (ParallelEffect_execute ?ok test_context)"
    by (simp add: execute_effect)
  from ok have "?ok \<noteq> [] \<longrightarrow> success (ParallelEffect_execute ?ok test_context) \<longrightarrow>
      newState (ParallelEffect_execute ?ok test_context) = newState (execute (last ?ok) test_context)"
    by blast
  with s have n: "newState (ParallelEffect_execute ?ok test_context)
      = newState (ResourceEffect_execute ''mana'' 2 Gain Self test_context)"
    by (simp add: execute_effect)
  from bad d f have s': "\<not> success (ParallelEffect_execute ?bad test_context)"
    by (simp add: execute_effect)
  from bad have "newState (ParallelEffect_execute ?bad test_context) =
      (if success (ParallelEffect_execute ?bad test_context)
       then foldl spread_state (gameState test_context)
              (map (\<lambda>e. newState (execute e test_context)) ?bad)
       else gameState test_context)"
    by blast
  with s' have n': "newState (ParallelEffect_execute ?bad test_context) = test_gameState"
    by (simp add: test_context_def)
  from s n s' n' show ?thesis by simp
qed

section \<open>Metadata of combinator results\<close>

lemma Repeated_Composite_loop:
  "repeated_loop e n ctx vars = composite_loop (replicate n e) ctx vars"
proof (induction n arbitrary: vars)
  case 0
  then show ?case by simp
next
  case (Suc n)
  then show ?case by (cases vars) (simp add: Let_def)
qed

lemma Repeated_Composite:
  "RepeatedEffect_execute e k ctx = CompositeEffect_execute (replicate (nat k) e) ctx"
  by (simp add: RepeatedEffect_execute_def CompositeEffect_execute_def Repeated_Composite_loop)

lemma Chained_first_fails:
  "\<not> success (execute first ctx) \<Longrightarrow> ChainedEffect_execute first chainFn ctx = execute first ctx"
  by (simp add: ChainedEffect_execute_def Let_def)

lemma Chained_first_succeeds:
  "success (execute first ctx) \<Longrightarrow>
   ChainedEffect_execute first chainFn ctx =
     \<lparr>success = success (execute (chainFn (execute first ctx))
                            (ctx\<lparr>gameState := newState (execute first ctx)\<rparr>)),
      newState = newState (execute (chainFn (execute first ctx))
                             (ctx\<lparr>gameState := newState (execute first ctx)\<rparr>)),
      messages = messages (execute first ctx)
                 @ messages (execute (chainFn (execute first ctx))
                               (ctx\<lparr>gameState := newState (execute first ctx)\<rparr>)),
      metadata = None\<rparr>"
  by (simp add: ChainedEffect_execute_def Let_def)

text \<open>
  C10, as stated, fails: a \<^verbatim>\<open>ChainedEffect\<close> whose first effect fails returns that
  effect's result as it is, metadata included.
\<close>

theorem Chained_keeps_metadata_of_failed_first:
  "\<not> success (execute tagged_failure test_context)
   \<and> metadata (execute tagged_failure test_context) = Some [(''code'', JNum 1)]
   \<and> metadata (execute (ChainedEffect tagged_failure then_heal) test_context)
        = Some [(''code'', JNum 1)]
   \<and> metadata (execute (ChainedEffect tagged_failure then_heal) test_context) \<noteq> None"
  by (simp add: execute_effect ChainedEffect_execute_def tagged_failure_def Let_def)

text \<open>
  C10, amended. The results of \<^verbatim>\<open>CompositeEffect\<close>, \<^verbatim>\<open>SequentialEffect\<close>,
  \<^verbatim>\<open>ParallelEffect\<close> and \<^verbatim>\<open>RepeatedEffect\<close> never carry metadata, whatever their children
  return. A \<^verbatim>\<open>ChainedEffect\<close> whose first effect succeeds takes success and state from the
  second effect, concatenates both message lists and carries no metadata; when the first
  effect fails, it returns the first effect's result unchanged.
\<close>

theorem combinator_metadata:
  "metadata (CompositeEffect_execute es ctx) = None
   \<and> metadata (SequentialEffect_execute es ctx) = None
   \<and> metadata (ParallelEffect_execute es ctx) = None
   \<and> metadata (RepeatedEffect_execute e k ctx) = None
   \<and> (success (execute first ctx) \<longrightarrow>
        ChainedEffect_execute first chainFn ctx =
          \<lparr>success = success (execute (chainFn (execute first ctx))
                                 (ctx\<lparr>gameState := newState (execute first ctx)\<rparr>)),
           newState = newState (execute (chainFn (execute first ctx))
                                  (ctx\<lparr>gameState := newState (execute first ctx)\<rparr>)),
           messages = messages (execute first ctx)
                      @ messages (execute (chainFn (execute first ctx))
                                    (ctx\<lparr>gameState := newState (execute first ctx)\<rparr>)),
           metadata = None\<rparr>)
   \<and> (\<not> success (execute first ctx) \<longrightarrow>
        ChainedEffect_execute first chainFn ctx = execute first ctx)"
  using Chained_first_fails [of first ctx chainFn] Chained_first_succeeds [of first ctx chainFn]
  by (simp add: Composite_executed Sequential_Composite Repeated_Composite Parallel_result)

theorem combinator_metadata_witness:
  "success (execute (DamageEffect 5 DOpponent) test_context)
   \<and> metadata (ChainedEffect_execute (DamageEffect 5 DOpponent) then_heal test_context) = None
   \<and> messages (ChainedEffect_execute (DamageEffect 5 DOpponent) then_heal test_context)
        = [''player2 takes 5 damage'', ''player1 heals 0 health'']
   \<and> \<not> success (execute tagged_failure test_context)
   \<and> ChainedEffect_execute tagged_failure then_heal test_context
        = execute tagged_failure test_context"
proof -
  have s: "success (execute (DamageEffect 5 DOpponent) test_context)"
    by (simp add: primitive_defs fixture_defs Let_def)
  have f: "\<not> success (execute tagged_failure test_context)"
    by (simp add: tagged_failure_def)
  note ok = combinator_metadata [of "[]" test_context tagged_failure 0 "DamageEffect 5 DOpponent" then_heal]
  note bad = combinator_metadata [of "[]" test_context tagged_failure 0 tagged_failure then_heal]
  from ok s have c: "ChainedEffect_execute (DamageEffect 5 DOpponent) then_heal test_context =
          \<lparr>success = success (execute (then_heal (execute (DamageEffect 5 DOpponent) test_context))
                (test_context\<lparr>gameState := newState (execute (DamageEffect 5 DOpponent) test_context)\<rparr>)),
           newState = newState (execute (then_heal (execute (DamageEffect 5 DOpponent) test_context))
                (test_context\<lparr>gameState := newState (execute (DamageEffect 5 DOpponent) test_context)\<rparr>)),
           messages = messages (execute (DamageEffect 5 DOpponent) test_context)
                      @ messages (execute (then_heal (execute (DamageEffect 5 DOpponent) test_context))
                (test_context\<lparr>gameState := newState (execute (DamageEffect 5 DOpponent) test_context)\<rparr>)),
           metadata = None\<rparr>"
    by blast
  have m: "metadata (ChainedEffect_execute (DamageEffect 5 DOpponent) then_heal test_context) = None"
    by (simp add: c)
  have msgs: "messages (ChainedEffect_execute (DamageEffect 5 DOpponent) then_heal test_context)
        = [''player2 takes 5 damage'', ''player1 heals 0 health'']"
    unfolding c by (simp add: then_heal_def primitive_defs fixture_defs Let_def)
  from bad f have b: "ChainedEffect_execute tagged_failure then_heal test_context
        = execute tagged_failure test_context"
    by blast
  from s m msgs f b show ?thesis by blast
qed

section \<open>The state returned with a failure\<close>

lemma Damage_failure_state:
  "\<not> success (DamageEffect_execute a dt ctx) \<Longrightarrow>
   newState (DamageEffect_execute a dt ctx) = gameState ctx"
  by (auto simp: DamageEffect_execute_def Let_def
      split: damage_target.splits option.splits prod.splits if_splits)

lemma Heal_failure_state:
  "\<not> success (HealEffect_execute a ht ctx) \<Longrightarrow>
   newState (HealEffect_execute a ht ctx) = gameState ctx"
  by (auto simp: HealEffect_execute_def Let_def
      split: heal_target.splits option.splits prod.splits if_splits)

lemma Draw_failure_state:
  "\<not> success (DrawCardEffect_execute n t ctx) \<Longrightarrow>
   newState (DrawCardEffect_execute n t ctx) = gameState ctx"
  by (auto simp: DrawCardEffect_execute_def Let_def
      split: option.splits prod.splits if_splits)

lemma Resource_failure_state:
  "\<not> success (ResourceEffect_execute rt a operation t ctx) \<Longrightarrow>
   newState (ResourceEffect_execute rt a operation t ctx) = gameState ctx"
  by (auto simp: ResourceEffect_execute_def Let_def
      split: option.splits resource_operation.splits if_splits)

lemma Composite_Nil:
  "CompositeEffect_execute [] ctx =
     \<lparr>success = True, newState = gameState ctx, messages = [], metadata = None\<rparr>"
  by (simp add: CompositeEffect_execute_def)

lemma Composite_Cons:
  "CompositeEffect_execute (e # es) ctx =
     (if success (execute e ctx)
      then \<lparr>success = success (CompositeEffect_execute es (ctx\<lparr>gameState := newState (execute e ctx)\<rparr>)),
            newState = newState (CompositeEffect_execute es (ctx\<lparr>gameState := newState (execute e ctx)\<rparr>)),
            messages = messages (execute e ctx)
                       @ messages (CompositeEffect_execute es (ctx\<lparr>gameState := newState (execute e ctx)\<rparr>)),
            metadata = None\<rparr>
      else \<lparr>success = False, newState = newState (execute e ctx),
            messages = messages (execute e ctx), metadata = None\<rparr>)"
  by (simp add: Composite_executed Let_def)

lemma Composite_failing_child:
  "\<not> success (CompositeEffect_execute es ctx) \<Longrightarrow>
   \<exists>pre child post. es = pre @ child # post
     \<and> success (CompositeEffect_execute pre ctx)
     \<and> \<not> success (execute child (ctx\<lparr>gameState := newState (CompositeEffect_execute pre ctx)\<rparr>))
     \<and> newState (CompositeEffect_execute es ctx) =
         newState (execute child (ctx\<lparr>gameState := newState (CompositeEffect_execute pre ctx)\<rparr>))"
proof (induction es arbitrary: ctx)
  case Nil
  then show ?case by (simp add: Composite_Nil)
next
  case (Cons e es)
  show ?case
  proof (cases "success (execute e ctx)")
    case False
    then have "e # es = [] @ e # es
      \<and> success (CompositeEffect_execute [] ctx)
      \<and> \<not> success (execute e (ctx\<lparr>gameState := newState (CompositeEffect_execute [] ctx)\<rparr>))
      \<and> newState (CompositeEffect_execute (e # es) ctx) =
          newState (execute e (ctx\<lparr>gameState := newState (CompositeEffect_execute [] ctx)\<rparr>))"
      by (simp add: Composite_Nil Composite_Cons)
    then show ?thesis by blast
  next
    case True
    let ?c = "ctx\<lparr>gameState := newState (execute e ctx)\<rparr>"
    from True Cons.prems have "\<not> success (CompositeEffect_execute es ?c)"
      by (simp add: Composite_Cons)
    from Cons.IH [OF this] obtain pre child post where
      es: "es = pre @ child # post"
      and pre: "success (CompositeEffect_execute pre ?c)"
      and child: "\<not> success (execute child (?c\<lparr>gameState := newState (CompositeEffect_execute pre ?c)\<rparr>))"
      and st: "newState (CompositeEffect_execute es ?c) =
                 newState (execute child (?c\<lparr>gameState := newState (CompositeEffect_execute pre ?c)\<rparr>))"
      by blast
    have "e # es = (e # pre) @ child # post
      \<and> success (CompositeEffect_execute (e # pre) ctx)
      \<and> \<not> success (execute child (ctx\<lparr>gameState := newState (CompositeEffect_execute (e # pre) ctx)\<rparr>))
      \<and> newState (CompositeEffect_execute (e # es) ctx) =
          newState (execute child (ctx\<lparr>gameState := newState (CompositeEffect_execute (e # pre) ctx)\<rparr>))"
      using True es pre child st by (simp add: Composite_Cons)
    then show ?thesis by blast
  qed
qed

text \<open>
  C1, as stated, fails: a \<^verbatim>\<open>CompositeEffect\<close> whose second child fails returns the state
  that its first child produced.
\<close>

theorem failing_Composite_returns_changed_state:
  "\<not> success (execute (CompositeEffect
        [DamageEffect 5 DOpponent, ResourceEffect ''mana'' 5 Spend Self]) test_context)
   \<and> newState (execute (CompositeEffect
        [DamageEffect 5 DOpponent, ResourceEffect ''mana'' 5 Spend Self]) test_context)
      \<noteq> gameState test_context"
  by (simp add: execute_effect Composite_Cons Composite_Nil primitive_defs fixture_defs Let_def)

text \<open>
  C1, amended. A failing primitive effect (damage, heal, draw, resource) and a failing
  \<^verbatim>\<open>ParallelEffect\<close> return the state they received. A failing \<^verbatim>\<open>ConditionalEffect\<close>
  returns its child's result, and a \<^verbatim>\<open>ContextualEffect\<close> returns its child's result on
  the augmented context, whose state is the received one unless the key is
  \<^verbatim>\<open>gameState\<close>. A failing \<^verbatim>\<open>CompositeEffect\<close> (and so a failing
  \<^verbatim>\<open>SequentialEffect\<close> or \<^verbatim>\<open>RepeatedEffect\<close>, which compute the same pipeline) returns the
  state that its failing child returned, and that child ran on the state left by the
  children that succeeded before it. A failing \<^verbatim>\<open>ChainedEffect\<close> returns the state of
  its first effect if that one failed and of its second effect otherwise.
\<close>

theorem failure_returns_state_of_failing_step:
  "(\<not> success (DamageEffect_execute a dt ctx) \<longrightarrow>
      newState (DamageEffect_execute a dt ctx) = gameState ctx)
   \<and> (\<not> success (HealEffect_execute a ht ctx) \<longrightarrow>
      newState (HealEffect_execute a ht ctx) = gameState ctx)
   \<and> (\<not> success (DrawCardEffect_execute n t ctx) \<longrightarrow>
      newState (DrawCardEffect_execute n t ctx) = gameState ctx)
   \<and> (\<not> success (ResourceEffect_execute rt a operation t ctx) \<longrightarrow>
      newState (ResourceEffect_execute rt a operation t ctx) = gameState ctx)
   \<and> (\<not> success (ParallelEffect_execute es ctx) \<longrightarrow>
      newState (ParallelEffect_execute es ctx) = gameState ctx)
   \<and> (\<not> success (ConditionalEffect_execute e predicate ctx) \<longrightarrow>
      ConditionalEffect_execute e predicate ctx = execute e ctx)
   \<and> (\<not> success (CompositeEffect_execute es ctx) \<longrightarrow>
      (\<exists>pre child post. es = pre @ child # post
         \<and> success (CompositeEffect_execute pre ctx)
         \<and> \<not> success (execute child (ctx\<lparr>gameState := newState (CompositeEffect_execute pre ctx)\<rparr>))
         \<and> newState (CompositeEffect_execute es ctx) =
             newState (execute child (ctx\<lparr>gameState := newState (CompositeEffect_execute pre ctx)\<rparr>))))
   \<and> SequentialEffect_execute es ctx = CompositeEffect_execute es ctx
   \<and> RepeatedEffect_execute e k ctx = CompositeEffect_execute (replicate (nat k) e) ctx
   \<and> (\<not> success (ChainedEffect_execute first chainFn ctx) \<longrightarrow>
      newState (ChainedEffect_execute first chainFn ctx) =
        (if success (execute first ctx)
         then newState (execute (chainFn (execute first ctx))
                          (ctx\<lparr>gameState := newState (execute first ctx)\<rparr>))
         else newState (execute first ctx)))
   \<and> ContextualEffect_execute e key v ctx = execute e (enhance key v ctx)
   \<and> (key \<noteq> ''gameState'' \<longrightarrow> gameState (enhance key v ctx) = gameState ctx)"
proof -
  have ctxl: "ContextualEffect_execute e key v ctx = execute e (enhance key v ctx)
      \<and> (key \<noteq> ''gameState'' \<longrightarrow> gameState (enhance key v ctx) = gameState ctx)"
    by (simp add: ContextualEffect_execute_def enhance_def split: context_value.splits)
  have par: "\<not> success (ParallelEffect_execute es ctx) \<longrightarrow>
      newState (ParallelEffect_execute es ctx) = gameState ctx"
    by (simp add: Parallel_result)
  have cond: "\<not> success (ConditionalEffect_execute e predicate ctx) \<longrightarrow>
      ConditionalEffect_execute e predicate ctx = execute e ctx"
    by (simp add: ConditionalEffect_execute_def)
  have chain: "\<not> success (ChainedEffect_execute first chainFn ctx) \<longrightarrow>
      newState (ChainedEffect_execute first chainFn ctx) =
        (if success (execute first ctx)
         then newState (execute (chainFn (execute first ctx))
                          (ctx\<lparr>gameState := newState (execute first ctx)\<rparr>))
         else newState (execute first ctx))"
    by (simp add: ChainedEffect_execute_def Let_def)
  from par cond chain ctxl show ?thesis
    using Damage_failure_state [of a dt ctx] Heal_failure_state [of a ht ctx]
      Draw_failure_state [of n t ctx] Resource_failure_state [of rt a operation t ctx]
      Composite_failing_child [of es ctx] Sequential_Composite [of es ctx]
      Repeated_Composite [of e k ctx]
    by blast
qed

theorem failure_returns_state_of_failing_step_witness:
  "\<not> success (DamageEffect_execute 1 DSelf ghost_context)
   \<and> newState (DamageEffect_execute 1 DSelf ghost_context) = test_gameState
   \<and> \<not> success (HealEffect_execute 1 HSelf ghost_context)
   \<and> newState (HealEffect_execute 1 HSelf ghost_context) = test_gameState
   \<and> \<not> success (DrawCardEffect_execute 1 Self ghost_context)
   \<and> newState (DrawCardEffect_execute 1 Self ghost_context) = test_gameState
   \<and> \<not> success (ResourceEffect_execute ''mana'' 1 Spend Self ghost_context)
   \<and> newState (ResourceEffect_execute ''mana'' 1 Spend Self ghost_context) = test_gameState
   \<and> \<not> success (ParallelEffect_execute
          [DamageEffect 1 DOpponent, DamageEffect 1 DSelf] ghost_context)
   \<and> newState (ParallelEffect_execute
          [DamageEffect 1 DOpponent, DamageEffect 1 DSelf] ghost_context) = test_gameState
   \<and> \<not> success (ConditionalEffect_execute (DamageEffect 1 DSelf) always ghost_context)
   \<and> newState (ConditionalEffect_execute (DamageEffect 1 DSelf) always ghost_context)
        = test_gameState
   \<and> \<not> success (CompositeEffect_execute
          [DamageEffect 1 DOpponent, DamageEffect 1 DSelf] ghost_context)
   \<and> (\<exists>pre child post.
          [DamageEffect 1 DOpponent, DamageEffect 1 DSelf] = pre @ child # post
          \<and> newState (CompositeEffect_execute
                [DamageEffect 1 DOpponent, DamageEffect 1 DSelf] ghost_context) =
              newState (execute child
                (ghost_context\<lparr>gameState := newState (CompositeEffect_execute pre ghost_context)\<rparr>)))
   \<and> \<not> success (ChainedEffect_execute (DamageEffect 1 DOpponent) then_damage_self ghost_context)
   \<and> newState (ChainedEffect_execute (DamageEffect 1 DOpponent) then_damage_self ghost_context)
        = newState (DamageEffect_execute 1 DOpponent ghost_context)"
proof -
  let ?es = "[DamageEffect 1 DOpponent, DamageEffect 1 DSelf]"
  note defs = primitive_defs fixture_defs ghost_context_def Let_def
  have g: "gameState ghost_context = test_gameState"
    by (simp add: ghost_context_def)
  have ok: "success (DamageEffect_execute 1 DOpponent ghost_context)"
    by (simp add: defs)
  have d: "\<not> success (DamageEffect_execute 1 DSelf ghost_context)"
    by (simp add: defs)
  have d': "\<not> success (DamageEffect_execute 1 DSelf
              (ghost_context\<lparr>gameState := newState (DamageEffect_execute 1 DOpponent ghost_context)\<rparr>))"
    by (simp add: defs)
  have d'': "newState (DamageEffect_execute 1 DSelf
              (ghost_context\<lparr>gameState := newState (DamageEffect_execute 1 DOpponent ghost_context)\<rparr>))
            = newState (DamageEffect_execute 1 DOpponent ghost_context)"
    using Damage_failure_state [OF d'] by simp
  have h: "\<not> success (HealEffect_execute 1 HSelf ghost_context)"
    by (simp add: defs)
  have dr: "\<not> success (DrawCardEffect_execute 1 Self ghost_context)"
    by (simp add: defs)
  have r: "\<not> success (ResourceEffect_execute ''mana'' 1 Spend Self ghost_context)"
    by (simp add: defs)
  have p: "\<not> success (ParallelEffect_execute ?es ghost_context)"
    using d by (simp add: Parallel_result execute_effect)
  have c: "\<not> success (ConditionalEffect_execute (DamageEffect 1 DSelf) always ghost_context)"
    using d by (simp add: ConditionalEffect_execute_def always_def execute_effect)
  have k: "\<not> success (CompositeEffect_execute ?es ghost_context)"
    using ok d' by (simp add: Composite_Cons Composite_Nil execute_effect)
  have ch: "\<not> success (ChainedEffect_execute (DamageEffect 1 DOpponent) then_damage_self ghost_context)"
    using ok d' by (simp add: ChainedEffect_execute_def then_damage_self_def execute_effect Let_def)
  note w = failure_returns_state_of_failing_step
     [of 1 DSelf ghost_context HSelf 1 Self "''mana''" Spend ?es "DamageEffect 1 DSelf" always
         0 "DamageEffect 1 DOpponent" then_damage_self]
  from w d have 1: "newState (DamageEffect_execute 1 DSelf ghost_context) = test_gameState"
    unfolding g by blast
  from w h have 2: "newState (HealEffect_execute 1 HSelf ghost_context) = test_gameState"
    unfolding g by blast
  from w dr have 3: "newState (DrawCardEffect_execute 1 Self ghost_context) = test_gameState"
    unfolding g by blast
  from w r have 4: "newState (ResourceEffect_execute ''mana'' 1 Spend Self ghost_context) = test_gameState"
    unfolding g by blast
  from w p have 5: "newState (ParallelEffect_execute ?es ghost_context) = test_gameState"
    unfolding g by blast
  from w c have "ConditionalEffect_execute (DamageEffect 1 DSelf) always ghost_context
                   = execute (DamageEffect 1 DSelf) ghost_context"
    by blast
  with 1 have 6: "newState (ConditionalEffect_execute (DamageEffect 1 DSelf) always ghost_context)
                    = test_gameState"
    by (simp add: execute_effect)
  from w k have 7: "\<exists>pre child post. ?es = pre @ child # post
          \<and> newState (CompositeEffect_execute ?es ghost_context) =
              newState (execute child
                (ghost_context\<lparr>gameState := newState (CompositeEffect_execute pre ghost_context)\<rparr>))"
    by blast
  from w ch have "newState (ChainedEffect_execute (DamageEffect 1 DOpponent) then_damage_self ghost_context) =
        (if success (execute (DamageEffect 1 DOpponent) ghost_context)
         then newState (execute (then_damage_self (execute (DamageEffect 1 DOpponent) ghost_context))
                          (ghost_context\<lparr>gameState := newState (execute (DamageEffect 1 DOpponent) ghost_context)\<rparr>))
         else newState (execute (DamageEffect 1 DOpponent) ghost_context))"
    by blast
  with ok d'' have 8:
    "newState (ChainedEffect_execute (DamageEffect 1 DOpponent) then_damage_self ghost_context)
        = newState (DamageEffect_execute 1 DOpponent ghost_context)"
    by (simp add: then_damage_self_def execute_effect)
  from d h dr r p c k ch 1 2 3 4 5 6 7 8 show ?thesis by blast
qed

section \<open>The capability registry\<close>

lemma register_ref: "fst (Context_register this sid p h) = length (contexts h)"
  by (simp add: Context_register_def new_Context_def Let_def)

lemma register_instances: "instances (snd (Context_register this sid p h)) = instances h"
  by (simp add: Context_register_def new_Context_def Context_copyFrom_def
      Context_addProvider_def Let_def)

lemma register_contexts:
  assumes "this < length (contexts h)"
  shows "contexts (snd (Context_register this sid p h)) =
           contexts h @ [\<lparr>services = services (contexts h ! this),
                           providers = (providers (contexts h ! this))(sid \<mapsto> p)\<rparr>]"
  using assms
  by (simp add: Context_register_def new_Context_def Context_copyFrom_def
      Context_addProvider_def Let_def nth_append)

lemma fork_ref: "fst (Context_fork this h) = length (contexts h)"
  by (simp add: Context_fork_def new_Context_def Let_def)

lemma fork_instances: "instances (snd (Context_fork this h)) = instances h"
  by (simp add: Context_fork_def new_Context_def Context_copyFrom_def Let_def)

lemma fork_contexts:
  assumes "this < length (contexts h)"
  shows "contexts (snd (Context_fork this h)) = contexts h @ [contexts h ! this]"
  using assms
  by (simp add: Context_fork_def new_Context_def Context_copyFrom_def Let_def nth_append)

lemma provide_twice:
  assumes "this < length (contexts h)"
    and "Context_provide this sid h = (Inr v, h')"
  shows "Context_provide this sid h' = (Inr v, h')"
proof (cases "services (contexts h ! this) sid")
  case (Some cached)
  with assms(2) have "h' = h" and "v = cached"
    by (simp_all add: Context_provide_def)
  with Some show ?thesis
    by (simp add: Context_provide_def)
next
  case None
  with assms(2) obtain p where p: "providers (contexts h ! this) sid = Some p"
    by (cases "providers (contexts h ! this) sid") (simp_all add: Context_provide_def)
  from None p assms(2) have v: "v = p (instances h)"
    and h': "h' = h\<lparr>instances := Suc (instances h),
                     contexts := (contexts h)[this := (contexts h ! this)
                       \<lparr>services := (services (contexts h ! this))(sid \<mapsto> p (instances h))\<rparr>]\<rparr>"
    by (auto simp: Context_provide_def Let_def)
  from assms(1) have "services (contexts h' ! this) sid = Some v"
    by (simp add: h' v)
  then show ?thesis
    by (simp add: Context_provide_def)
qed

lemma provide_unregistered:
  assumes "this < length (contexts h)"
    and "cache_backed h"
    and "providers (contexts h ! this) sid = None"
  shows "Context_provide this sid h
           = (Inl (Error (''No provider registered for service: '' @ sid)), h)"
proof -
  from assms(1,2) have "dom (services (contexts h ! this)) \<subseteq> dom (providers (contexts h ! this))"
    by (simp add: cache_backed_def list_all_length)
  with assms(3) have "services (contexts h ! this) sid = None"
    by (auto simp: dom_def)
  with assms(3) show ?thesis
    by (simp add: Context_provide_def)
qed

lemma cache_backed_new: "cache_backed h \<Longrightarrow> cache_backed (snd (new_Context h))"
  by (simp add: cache_backed_def new_Context_def)

lemma cache_backed_register:
  assumes "this < length (contexts h)" and "cache_backed h"
  shows "cache_backed (snd (Context_register this sid p h))"
proof -
  from assms have "dom (services (contexts h ! this)) \<subseteq> dom (providers (contexts h ! this))"
    by (simp add: cache_backed_def list_all_length)
  then have "dom (services (contexts h ! this))
               \<subseteq> dom ((providers (contexts h ! this))(sid \<mapsto> p))"
    by auto
  with assms(2) show ?thesis
    by (simp add: cache_backed_def register_contexts [OF assms(1)])
qed

lemma cache_backed_fork:
  assumes "this < length (contexts h)" and "cache_backed h"
  shows "cache_backed (snd (Context_fork this h))"
proof -
  from assms have "dom (services (contexts h ! this)) \<subseteq> dom (providers (contexts h ! this))"
    by (simp add: cache_backed_def list_all_length)
  with assms(2) show ?thesis
    by (simp add: cache_backed_def fork_contexts [OF assms(1)])
qed

lemma cache_backed_provide:
  assumes "this < length (contexts h)" and "cache_backed h"
  shows "cache_backed (snd (Context_provide this sid h))"
proof (cases "services (contexts h ! this) sid")
  case (Some cached)
  with assms(2) show ?thesis by (simp add: Context_provide_def)
next
  case None
  show ?thesis
  proof (cases "providers (contexts h ! this) sid")
    case None
    with \<open>services (contexts h ! this) sid = None\<close> assms(2) show ?thesis
      by (simp add: Context_provide_def)
  next
    case (Some p)
    from assms have sub: "dom (services (contexts h ! this)) \<subseteq> dom (providers (contexts h ! this))"
      by (simp add: cache_backed_def list_all_length)
    with Some have "dom ((services (contexts h ! this))(sid \<mapsto> p (instances h)))
                      \<subseteq> dom (providers (contexts h ! this))"
      by auto
    with assms Some \<open>services (contexts h ! this) sid = None\<close> show ?thesis
      by (auto simp: Context_provide_def cache_backed_def Let_def list_all_length nth_list_update)
  qed
qed

lemma provide_caches:
  assumes "this < length (contexts h)"
    and "Context_provide this sid h = (Inr v, h')"
  shows "services (contexts h' ! this) sid = Some v"
proof (cases "services (contexts h ! this) sid")
  case (Some cached)
  with assms(2) show ?thesis
    by (auto simp: Context_provide_def)
next
  case None
  with assms show ?thesis
    by (cases "providers (contexts h ! this) sid") (auto simp: Context_provide_def Let_def)
qed

lemma provide_depends_on_cell:
  assumes "this < length (contexts h)" and "this < length (contexts g)"
    and "contexts g ! this = contexts h ! this" and "instances g = instances h"
  shows "fst (Context_provide this sid g) = fst (Context_provide this sid h)
    \<and> contexts (snd (Context_provide this sid g)) ! this
        = contexts (snd (Context_provide this sid h)) ! this"
  using assms
  by (simp add: Context_provide_def Let_def split: option.splits)

lemma fork_register_isolated:
  assumes "this < length (contexts h)"
  shows "contexts (snd (Context_register (fst (Context_fork this h)) sid p
                          (snd (Context_fork this h)))) ! this = contexts h ! this"
    and "instances (snd (Context_register (fst (Context_fork this h)) sid p
                          (snd (Context_fork this h)))) = instances h"
    and "this < length (contexts (snd (Context_register (fst (Context_fork this h)) sid p
                          (snd (Context_fork this h)))))"
proof -
  let ?f = "fst (Context_fork this h)" and ?h1 = "snd (Context_fork this h)"
  have f: "?f < length (contexts ?h1)"
    by (simp add: fork_ref fork_contexts [OF assms])
  show "contexts (snd (Context_register ?f sid p ?h1)) ! this = contexts h ! this"
    using assms by (simp add: register_contexts [OF f] fork_contexts [OF assms] nth_append)
  show "instances (snd (Context_register ?f sid p ?h1)) = instances h"
    by (simp add: register_instances fork_instances)
  show "this < length (contexts (snd (Context_register ?f sid p ?h1)))"
    using assms by (simp add: register_contexts [OF f] fork_contexts [OF assms])
qed

text \<open>
  C9. On a \<^verbatim>\<open>Context\<close> object, a \<^verbatim>\<open>provide(id)\<close> that returns an instance caches it, and
  the next \<^verbatim>\<open>provide(id)\<close> returns that same instance and changes nothing; \<^verbatim>\<open>provide(id)\<close>
  for an id without a registered provider throws the 'No provider registered' error;
  \<^verbatim>\<open>register\<close> returns a new object that holds the receiver's providers and cached
  services plus the new provider, and leaves every existing object, the receiver
  included, as it was; after \<^verbatim>\<open>fork()\<close>, registering on the fork changes neither
  \<^verbatim>\<open>has(id)\<close> nor \<^verbatim>\<open>provide(id)\<close> of the original.
\<close>

theorem Context_memoizes_and_copies:
  assumes "this < length (contexts h)"
  shows "(\<forall>v h'. Context_provide this sid h = (Inr v, h') \<longrightarrow>
            services (contexts h' ! this) sid = Some v
            \<and> Context_provide this sid h' = (Inr v, h'))
    \<and> (cache_backed h \<and> providers (contexts h ! this) sid = None \<longrightarrow>
          Context_provide this sid h
            = (Inl (Error (''No provider registered for service: '' @ sid)), h))
    \<and> fst (Context_register this sid p h) = length (contexts h)
    \<and> providers (contexts (snd (Context_register this sid p h)) ! fst (Context_register this sid p h))
        = (providers (contexts h ! this))(sid \<mapsto> p)
    \<and> services (contexts (snd (Context_register this sid p h)) ! fst (Context_register this sid p h))
        = services (contexts h ! this)
    \<and> take (length (contexts h)) (contexts (snd (Context_register this sid p h))) = contexts h
    \<and> instances (snd (Context_register this sid p h)) = instances h
    \<and> Context_has this sid'
          (snd (Context_register (fst (Context_fork this h)) sid p (snd (Context_fork this h))))
        = Context_has this sid' h
    \<and> fst (Context_provide this sid'
          (snd (Context_register (fst (Context_fork this h)) sid p (snd (Context_fork this h)))))
        = fst (Context_provide this sid' h)
    \<and> contexts (snd (Context_provide this sid'
          (snd (Context_register (fst (Context_fork this h)) sid p (snd (Context_fork this h))))))
          ! this
        = contexts (snd (Context_provide this sid' h)) ! this
    \<and> (cache_backed h \<longrightarrow>
          cache_backed (snd (Context_register this sid p h))
          \<and> cache_backed (snd (Context_fork this h))
          \<and> cache_backed (snd (Context_provide this sid h))
          \<and> cache_backed (snd (new_Context h)))"
proof -
  let ?g = "snd (Context_register (fst (Context_fork this h)) sid p (snd (Context_fork this h)))"
  note iso = fork_register_isolated [OF assms, of sid p]
  have memo: "\<forall>v h'. Context_provide this sid h = (Inr v, h') \<longrightarrow>
            services (contexts h' ! this) sid = Some v
            \<and> Context_provide this sid h' = (Inr v, h')"
    using provide_twice [OF assms] provide_caches [OF assms] by blast
  have unreg: "cache_backed h \<and> providers (contexts h ! this) sid = None \<longrightarrow>
          Context_provide this sid h
            = (Inl (Error (''No provider registered for service: '' @ sid)), h)"
    using provide_unregistered [OF assms] by blast
  have r0: "fst (Context_register this sid p h) = length (contexts h)"
    by (rule register_ref)
  have r1: "providers (contexts (snd (Context_register this sid p h)) ! fst (Context_register this sid p h))
        = (providers (contexts h ! this))(sid \<mapsto> p)"
    by (simp add: register_ref register_contexts [OF assms])
  have r2: "services (contexts (snd (Context_register this sid p h)) ! fst (Context_register this sid p h))
        = services (contexts h ! this)"
    by (simp add: register_ref register_contexts [OF assms])
  have r3: "take (length (contexts h)) (contexts (snd (Context_register this sid p h))) = contexts h"
    by (simp add: register_contexts [OF assms])
  have r4: "instances (snd (Context_register this sid p h)) = instances h"
    by (rule register_instances)
  have has: "Context_has this sid' ?g = Context_has this sid' h"
    unfolding Context_has_def iso(1) by (rule refl)
  have prov: "fst (Context_provide this sid' ?g) = fst (Context_provide this sid' h)
    \<and> contexts (snd (Context_provide this sid' ?g)) ! this
        = contexts (snd (Context_provide this sid' h)) ! this"
    by (rule provide_depends_on_cell [OF assms iso(3) iso(1) iso(2)])
  have inv: "cache_backed h \<longrightarrow>
          cache_backed (snd (Context_register this sid p h))
          \<and> cache_backed (snd (Context_fork this h))
          \<and> cache_backed (snd (Context_provide this sid h))
          \<and> cache_backed (snd (new_Context h))"
    using cache_backed_register [OF assms] cache_backed_fork [OF assms]
      cache_backed_provide [OF assms] cache_backed_new [of h] by blast
  from prov have p1: "fst (Context_provide this sid' ?g) = fst (Context_provide this sid' h)"
    and p2: "contexts (snd (Context_provide this sid' ?g)) ! this
        = contexts (snd (Context_provide this sid' h)) ! this"
    by (rule conjunct1, rule conjunct2)
  from memo unreg r0 r1 r2 r3 r4 has p1 p2 inv show ?thesis
    by - (intro conjI; assumption)
qed

lemma logger_heap_contexts:
  "contexts logger_heap =
     [\<lparr>services = Map.empty, providers = Map.empty\<rparr>,
      \<lparr>services = Map.empty, providers = [''logger'' \<mapsto> logger_provider]\<rparr>]"
  "instances logger_heap = 0"
  by (simp_all add: logger_heap_def Context_register_def new_Context_def Context_copyFrom_def
      Context_addProvider_def Let_def)

theorem Context_memoizes_and_copies_witness:
  "1 < length (contexts logger_heap)
   \<and> Context_provide 1 ''logger'' logger_heap
       = (Inr \<lparr>id_service = ''logger'', obj_ref = 0\<rparr>, snd (Context_provide 1 ''logger'' logger_heap))
   \<and> Context_provide 1 ''logger'' (snd (Context_provide 1 ''logger'' logger_heap))
       = (Inr \<lparr>id_service = ''logger'', obj_ref = 0\<rparr>, snd (Context_provide 1 ''logger'' logger_heap))
   \<and> cache_backed logger_heap
   \<and> providers (contexts logger_heap ! 1) ''random'' = None
   \<and> Context_provide 1 ''random'' logger_heap
       = (Inl (Error ''No provider registered for service: random''), logger_heap)
   \<and> \<not> Context_has 1 ''random''
         (snd (Context_register (fst (Context_fork 1 logger_heap)) ''random'' random_provider
                 (snd (Context_fork 1 logger_heap))))"
proof -
  have len: "1 < length (contexts logger_heap)"
    by (simp add: logger_heap_contexts)
  have first: "Context_provide 1 ''logger'' logger_heap
       = (Inr \<lparr>id_service = ''logger'', obj_ref = 0\<rparr>, snd (Context_provide 1 ''logger'' logger_heap))"
    by (simp add: Context_provide_def logger_heap_contexts logger_provider_def Let_def)
  have backed: "cache_backed logger_heap"
    by (simp add: cache_backed_def logger_heap_contexts)
  have none: "providers (contexts logger_heap ! 1) ''random'' = None"
    by (simp add: logger_heap_contexts)
  have nohas: "\<not> Context_has 1 ''random'' logger_heap"
    by (simp add: Context_has_def logger_heap_contexts)
  note w = Context_memoizes_and_copies [OF len, of "''logger''" random_provider "''random''"]
  note w' = Context_memoizes_and_copies [OF len, of "''random''" random_provider "''random''"]
  from w first have second:
    "Context_provide 1 ''logger'' (snd (Context_provide 1 ''logger'' logger_heap))
       = (Inr \<lparr>id_service = ''logger'', obj_ref = 0\<rparr>, snd (Context_provide 1 ''logger'' logger_heap))"
    by blast
  from w' backed none have throws: "Context_provide 1 ''random'' logger_heap
       = (Inl (Error (''No provider registered for service: '' @ ''random'')), logger_heap)"
    by blast
  from w' nohas have iso: "\<not> Context_has 1 ''random''
         (snd (Context_register (fst (Context_fork 1 logger_heap)) ''random'' random_provider
                 (snd (Context_fork 1 logger_heap))))"
    by blast
  from len first second backed none throws iso show ?thesis by simp
qed

section \<open>The in-memory store\<close>

lemma json_clone_id: "json_clone v = v"
  by (induction v) (auto intro!: map_idI simp: map_prod_def split: prod.splits)

lemma load_after_save:
  "MemoryStorage_load key (MemoryStorage_save key v st) = (if truthy v then v else JNull)"
  by (simp add: MemoryStorage_load_def MemoryStorage_save_def json_clone_id)

lemma load_never_saved:
  "data st key = None \<Longrightarrow> MemoryStorage_load key st = JNull"
  by (simp add: MemoryStorage_load_def)

text \<open>
  C8 does not hold of the code: after \<^verbatim>\<open>save(key, 0)\<close> the key exists, and \<^verbatim>\<open>load(key)\<close>
  returns \<^verbatim>\<open>null\<close>, the result for an absent key, not the number that was stored. The same
  happens for the empty string and for \<^verbatim>\<open>false\<close>.
\<close>

theorem load_loses_falsy_value:
  "MemoryStorage_exists ''k'' (MemoryStorage_save ''k'' (JNum 0) new_MemoryStorage)
   \<and> MemoryStorage_load ''k'' (MemoryStorage_save ''k'' (JNum 0) new_MemoryStorage) = JNull
   \<and> MemoryStorage_load ''k'' (MemoryStorage_save ''k'' (JNum 0) new_MemoryStorage) \<noteq> JNum 0
   \<and> MemoryStorage_load ''k'' (MemoryStorage_save ''k'' (JStr []) new_MemoryStorage) = JNull
   \<and> MemoryStorage_load ''k'' (MemoryStorage_save ''k'' (JBool False) new_MemoryStorage) = JNull"
  by (simp add: MemoryStorage_exists_def MemoryStorage_load_def MemoryStorage_save_def
      new_MemoryStorage_def)

end
